theory Spec2Isabelle
  imports Complex_Main "HOL-Library.Log_Nat"
begin

section \<open>The budgeting API of backend-rockefeller-finance\<close>

text \<open>
  The repository holds four variants of one Express server: \<^verbatim>\<open>src/server.js\<close> and the
  three documents of \<^verbatim>\<open>src/unnamed/part_000\<close> (lines 1-525, 525-1211 and 1211-1467).
  The handlers of \<^verbatim>\<open>/api/initial-budget\<close>, \<^verbatim>\<open>/api/expenses\<close> and
  \<^verbatim>\<open>/api/allocations\<close> are the same code in \<^verbatim>\<open>server.js\<close> and in the second
  document of \<^verbatim>\<open>part_000\<close> (which only adds logging and a \<^verbatim>\<open>code\<close> field to the
  error bodies). The handlers of \<^verbatim>\<open>/api/investments\<close> and \<^verbatim>\<open>/api/bitcoin-price\<close>
  differ between the two, and both are embedded.

  A JavaScript Number is an IEEE-754 double. A Number is modelled by the rational it
  denotes, and the arithmetic of the ledger handlers is given twice: exactly (what a
  handler computes where no operation rounds), and with every sum, difference, product and
  quotient rounded to the nearest double (\<open>binary64\<close>, in the definitions whose names end
  in \<open>64\<close>). Persistence (\<^verbatim>\<open>User.findById\<close>, \<^verbatim>\<open>user.save\<close>) is assumed to reach the
  store: a handler is a function from the stored document to an error or the document it
  saves, and a request that ends in an error response saves nothing.
\<close>

subsection \<open>Documents\<close>

type_synonym number = rat

text \<open>The sub-documents of \<^verbatim>\<open>userSchema\<close>.\<close>

record expense =
  exp_amount :: number
  exp_category :: string
  exp_date :: string
  exp_purpose :: string
  exp_location :: string

record allocs =
  essentials :: number
  savings :: number
  selfInvestment :: number
  charity :: number
  emergency :: number

text \<open>
  The schema declares the elements of \<^verbatim>\<open>investmentHistory\<close> as
  \<^verbatim>\<open>{ amount: Number, date: String, price: Number, type: String }\<close>. Mongoose reads an
  object with a key \<^verbatim>\<open>type\<close> as the declaration of that type, with the other keys as
  its options: the path is an array of String. A document holds strings there, and a
  \<^verbatim>\<open>push\<close> of an object throws a \<^verbatim>\<open>CastError\<close>.
\<close>

record user =
  username :: string
  password :: string
  initialBudget :: number
  expenses :: "expense list"
  allocations :: allocs
  investmentHistory :: "string list"

text \<open>\<^verbatim>\<open>new User({ username, password })\<close>: every other path takes its schema default.\<close>

definition new_user :: "string \<Rightarrow> string \<Rightarrow> user" where
  "new_user name pw =
     \<lparr>username = name, password = pw, initialBudget = 0, expenses = [],
      allocations = \<lparr>essentials = 0, savings = 0, selfInvestment = 0, charity = 0, emergency = 0\<rparr>,
      investmentHistory = []\<rparr>"

text \<open>The five property names of \<^verbatim>\<open>allocations\<close>, and reading and adding to one of them.\<close>

datatype alloc_key = Essentials | Savings | SelfInvestment | Charity | Emergency

fun alloc_get :: "alloc_key \<Rightarrow> allocs \<Rightarrow> number" where
  "alloc_get Essentials a = essentials a"
| "alloc_get Savings a = savings a"
| "alloc_get SelfInvestment a = selfInvestment a"
| "alloc_get Charity a = charity a"
| "alloc_get Emergency a = emergency a"

fun alloc_add :: "alloc_key \<Rightarrow> number \<Rightarrow> allocs \<Rightarrow> allocs" where
  "alloc_add Essentials d a = a\<lparr>essentials := essentials a + d\<rparr>"
| "alloc_add Savings d a = a\<lparr>savings := savings a + d\<rparr>"
| "alloc_add SelfInvestment d a = a\<lparr>selfInvestment := selfInvestment a + d\<rparr>"
| "alloc_add Charity d a = a\<lparr>charity := charity a + d\<rparr>"
| "alloc_add Emergency d a = a\<lparr>emergency := emergency a + d\<rparr>"

text \<open>
  \<^verbatim>\<open>Object.values(user.allocations).reduce((sum, val) => sum + val, 0)\<close>: the values are
  those of the five paths of the schema.
\<close>

definition sum_allocations :: "allocs \<Rightarrow> number" where
  "sum_allocations a = 0 + essentials a + savings a + selfInvestment a + charity a + emergency a"

definition allocs_nonneg :: "allocs \<Rightarrow> bool" where
  "allocs_nonneg a \<longleftrightarrow>
     0 \<le> essentials a \<and> 0 \<le> savings a \<and> 0 \<le> selfInvestment a \<and> 0 \<le> charity a \<and> 0 \<le> emergency a"

subsection \<open>Category labels\<close>

text \<open>
  The five display labels, as the UTF-8 bytes of the source's string literals
  (\<^verbatim>\<open>'Tieu dung thiet yeu'\<close>, \<^verbatim>\<open>'Tiet kiem bat buoc'\<close>, \<^verbatim>\<open>'Dau tu ban than'\<close>,
  \<^verbatim>\<open>'Tu thien'\<close>, \<^verbatim>\<open>'Du phong linh hoat'\<close>, written there with their Vietnamese
  diacritics).
\<close>

definition label_essentials :: string where
  "label_essentials = ''Ti'' @ [CHR 0xC3, CHR 0xAA] @ ''u d'' @ [CHR 0xC3, CHR 0xB9] @ ''ng thi''
     @ [CHR 0xE1, CHR 0xBA, CHR 0xBF] @ ''t y'' @ [CHR 0xE1, CHR 0xBA, CHR 0xBF] @ ''u''"

definition label_savings :: string where
  "label_savings = ''Ti'' @ [CHR 0xE1, CHR 0xBA, CHR 0xBF] @ ''t ki'' @ [CHR 0xE1, CHR 0xBB, CHR 0x87]
     @ ''m b'' @ [CHR 0xE1, CHR 0xBA, CHR 0xAF] @ ''t bu'' @ [CHR 0xE1, CHR 0xBB, CHR 0x99] @ ''c''"

definition label_selfInvestment :: string where
  "label_selfInvestment = [CHR 0xC4, CHR 0x90, CHR 0xE1, CHR 0xBA, CHR 0xA7] @ ''u t''
     @ [CHR 0xC6, CHR 0xB0] @ '' b'' @ [CHR 0xE1, CHR 0xBA, CHR 0xA3] @ ''n th'' @ [CHR 0xC3, CHR 0xA2] @ ''n''"

definition label_charity :: string where
  "label_charity = ''T'' @ [CHR 0xE1, CHR 0xBB, CHR 0xAB] @ '' thi'' @ [CHR 0xE1, CHR 0xBB, CHR 0x87] @ ''n''"

definition label_emergency :: string where
  "label_emergency = ''D'' @ [CHR 0xE1, CHR 0xBB, CHR 0xB1] @ '' ph'' @ [CHR 0xC3, CHR 0xB2]
     @ ''ng linh ho'' @ [CHR 0xE1, CHR 0xBA, CHR 0xA1] @ ''t''"

text \<open>
  The handlers resolve a label with a property read on an object literal,
  \<^verbatim>\<open>const categoryKey = { label: 'essentials', ... }[category]\<close>. A property read also
  finds what the literal inherits from \<^verbatim>\<open>Object.prototype\<close>: for the names below the
  read gives a function (for \<^verbatim>\<open>__proto__\<close> the prototype object), which is truthy and
  so passes \<^verbatim>\<open>if (!categoryKey)\<close>, and which names no property of
  \<^verbatim>\<open>user.allocations\<close>.
\<close>

definition object_prototype_names :: "string list" where
  "object_prototype_names =
     [''constructor'', ''__defineGetter__'', ''__defineSetter__'', ''hasOwnProperty'',
      ''__lookupGetter__'', ''__lookupSetter__'', ''isPrototypeOf'', ''propertyIsEnumerable'',
      ''toString'', ''valueOf'', ''__proto__'', ''toLocaleString'']"

datatype category_lookup = Key alloc_key | Inherited | Undefined

definition categoryKey :: "string \<Rightarrow> category_lookup" where
  "categoryKey category =
     (if category = label_essentials then Key Essentials
      else if category = label_savings then Key Savings
      else if category = label_selfInvestment then Key SelfInvestment
      else if category = label_charity then Key Charity
      else if category = label_emergency then Key Emergency
      else if category \<in> set object_prototype_names then Inherited
      else Undefined)"

subsection \<open>Requests and errors\<close>

text \<open>
  The error responses, named by the \<^verbatim>\<open>code\<close> field of the second document of
  \<^verbatim>\<open>part_000\<close>: \<^verbatim>\<open>VALIDATION_ERROR\<close>, \<^verbatim>\<open>INVALID_CATEGORY\<close>,
  \<^verbatim>\<open>INSUFFICIENT_ALLOCATION\<close>, \<^verbatim>\<open>INVALID_INDEX\<close>, \<^verbatim>\<open>INSUFFICIENT_BUDGET\<close>,
  \<^verbatim>\<open>PORTFOLIO_RISK\<close> (all status 400) and \<^verbatim>\<open>SERVER_ERROR\<close> (status 500, from the
  handler's \<^verbatim>\<open>catch\<close>).
\<close>

datatype error =
  ValidationError | InvalidCategory | InsufficientAllocation | InvalidIndex
  | InsufficientBudget | PortfolioRisk | ServerError

text \<open>
  The body of \<^verbatim>\<open>POST /api/expenses\<close>; \<open>req_date\<close> is \<open>None\<close> when the field is absent.
  The amounts of a body are taken as the JSON numbers they were sent as.
\<close>

record expense_req =
  req_amount :: number
  req_category :: string
  req_purpose :: string
  req_location :: string
  req_date :: "string option"

record investment_req =
  ireq_amount :: number
  ireq_price :: number
  ireq_type :: string

text \<open>\<^verbatim>\<open>parseInt(req.params.index)\<close>: an integer, or \<^verbatim>\<open>NaN\<close> when the text does not start with one.\<close>

datatype js_index = NaN | Index int

text \<open>\<^verbatim>\<open>date || new Date().toLocaleDateString('vi-VN')\<close>: an absent or empty date is falsy.\<close>

definition date_or :: "string option \<Rightarrow> string \<Rightarrow> string" where
  "date_or d today = (case d of None \<Rightarrow> today | Some s \<Rightarrow> if s = [] then today else s)"

text \<open>\<^verbatim>\<open>xs.splice(i, 1)\<close> for an index in range.\<close>

definition splice1 :: "nat \<Rightarrow> 'a list \<Rightarrow> 'a list" where
  "splice1 i xs = take i xs @ drop (Suc i) xs"

subsection \<open>The ledger handlers, in exact arithmetic\<close>

text \<open>
  \<^verbatim>\<open>POST /api/initial-budget\<close> (\<^verbatim>\<open>server.js\<close> 140-163). The validator is
  \<^verbatim>\<open>body('initialBudget').isFloat({ min: 0 })\<close>.
\<close>

definition post_initial_budget :: "user \<Rightarrow> number \<Rightarrow> error + user" where
  "post_initial_budget u newBudget =
     (if \<not> 0 \<le> newBudget then Inl ValidationError
      else Inr (u\<lparr>initialBudget := initialBudget u + newBudget,
                  allocations :=
                    \<lparr>essentials = essentials (allocations u) + newBudget * 0.5,
                     savings = savings (allocations u) + newBudget * 0.2,
                     selfInvestment = selfInvestment (allocations u) + newBudget * 0.15,
                     charity = charity (allocations u) + newBudget * 0.05,
                     emergency = emergency (allocations u) + newBudget * 0.1\<rparr>\<rparr>))"

text \<open>
  \<^verbatim>\<open>POST /api/expenses\<close> (\<^verbatim>\<open>server.js\<close> 185-227). The validators ask for
  \<^verbatim>\<open>amount\<close> to be a float that is at least 0 and for non-empty \<^verbatim>\<open>category\<close>,
  \<^verbatim>\<open>purpose\<close> and \<^verbatim>\<open>location\<close>. For an inherited name
  \<^verbatim>\<open>user.allocations[categoryKey]\<close> is \<^verbatim>\<open>undefined\<close>, the comparison
  \<^verbatim>\<open>amount > undefined\<close> is false, and the assignment to
  \<^verbatim>\<open>user.allocations[categoryKey]\<close> writes no path of the schema.
\<close>

definition expense_valid :: "expense_req \<Rightarrow> bool" where
  "expense_valid r \<longleftrightarrow>
     0 \<le> req_amount r \<and> req_category r \<noteq> [] \<and> req_purpose r \<noteq> [] \<and> req_location r \<noteq> []"

definition newExpense :: "expense_req \<Rightarrow> string \<Rightarrow> expense" where
  "newExpense r today =
     \<lparr>exp_amount = req_amount r, exp_category = req_category r,
      exp_date = date_or (req_date r) today,
      exp_purpose = req_purpose r, exp_location = req_location r\<rparr>"

definition post_expenses :: "user \<Rightarrow> expense_req \<Rightarrow> string \<Rightarrow> error + user" where
  "post_expenses u r today =
     (if \<not> expense_valid r then Inl ValidationError
      else case categoryKey (req_category r) of
        Undefined \<Rightarrow> Inl InvalidCategory
      | Key k \<Rightarrow>
          if req_amount r > alloc_get k (allocations u) then Inl InsufficientAllocation
          else Inr (u\<lparr>expenses := expenses u @ [newExpense r today],
                      initialBudget := initialBudget u - req_amount r,
                      allocations := alloc_add k (- req_amount r) (allocations u)\<rparr>)
      | Inherited \<Rightarrow>
          Inr (u\<lparr>expenses := expenses u @ [newExpense r today],
                 initialBudget := initialBudget u - req_amount r\<rparr>))"

text \<open>
  \<^verbatim>\<open>POST /api/allocations\<close> (\<^verbatim>\<open>server.js\<close> 265-284): each of the five fields of the
  body is validated with \<^verbatim>\<open>isFloat({ min: 0 })\<close>, then \<^verbatim>\<open>user.allocations = req.body\<close>.
\<close>

definition post_allocations :: "user \<Rightarrow> allocs \<Rightarrow> error + user" where
  "post_allocations u body =
     (if \<not> allocs_nonneg body then Inl ValidationError
      else Inr (u\<lparr>allocations := body\<rparr>))"

subsection \<open>Double arithmetic\<close>

text \<open>
  Rounding to the nearest integer, ties to the even one; the exponent of a positive
  rational (the greatest \<open>e\<close> with \<open>2\<^sup>e \<le> y\<close>), from the bit lengths of its numerator and
  denominator; and the double nearest to a rational: 53 significant bits at the exponent
  of the argument, or at exponent -1022 for the subnormal range. For a result of magnitude
  \<open>2\<^sup>1\<^sup>0\<^sup>2\<^sup>4\<close> or more JavaScript has \<^verbatim>\<open>Infinity\<close>, which these numbers do not
  represent: the properties of sums and products below bound the magnitudes.
\<close>

definition rhe :: "rat \<Rightarrow> int" where
  "rhe y = (let f = \<lfloor>y\<rfloor>; d = y - of_int f in
     if d < 1 / 2 then f else if d > 1 / 2 then f + 1 else if even f then f else f + 1)"

definition ilog2 :: "rat \<Rightarrow> int" where
  "ilog2 y = (let p = fst (quotient_of y); q = snd (quotient_of y); d = bitlen p - bitlen q
     in if 2 powi d \<le> y then d else d - 1)"

definition binary64 :: "number \<Rightarrow> number" where
  "binary64 x = (if x = 0 then 0 else
     let e = max (ilog2 \<bar>x\<bar>) (- 1022); q = 2 powi (e - 52) in of_int (rhe (x / q)) * q)"

text \<open>
  The unit roundoff, the least spacing of doubles halved, and the machine epsilon, which
  bounds the relative error of one rounding of a number of magnitude at least 1.
\<close>

definition u64 :: number where
  "u64 = 2 powi (- 53)"

definition eta64 :: number where
  "eta64 = 2 powi (- 1075)"

definition eps64 :: number where
  "eps64 = 1 / 2 ^ 52"

subsection \<open>The ledger handlers, in double arithmetic\<close>

fun alloc_set :: "alloc_key \<Rightarrow> number \<Rightarrow> allocs \<Rightarrow> allocs" where
  "alloc_set Essentials v a = a\<lparr>essentials := v\<rparr>"
| "alloc_set Savings v a = a\<lparr>savings := v\<rparr>"
| "alloc_set SelfInvestment v a = a\<lparr>selfInvestment := v\<rparr>"
| "alloc_set Charity v a = a\<lparr>charity := v\<rparr>"
| "alloc_set Emergency v a = a\<lparr>emergency := v\<rparr>"

text \<open>
  \<^verbatim>\<open>POST /api/initial-budget\<close> (\<^verbatim>\<open>server.js\<close> 140-163): one addition for the budget;
  for each allocation the literal weight is a double, the product is rounded, and the sum
  is rounded.
\<close>

definition post_initial_budget64 :: "user \<Rightarrow> number \<Rightarrow> error + user" where
  "post_initial_budget64 u newBudget =
     (if \<not> 0 \<le> newBudget then Inl ValidationError
      else Inr (u\<lparr>initialBudget := binary64 (initialBudget u + newBudget),
                  allocations :=
                    \<lparr>essentials = binary64 (essentials (allocations u) + binary64 (newBudget * binary64 0.5)),
                     savings = binary64 (savings (allocations u) + binary64 (newBudget * binary64 0.2)),
                     selfInvestment =
                       binary64 (selfInvestment (allocations u) + binary64 (newBudget * binary64 0.15)),
                     charity = binary64 (charity (allocations u) + binary64 (newBudget * binary64 0.05)),
                     emergency = binary64 (emergency (allocations u) + binary64 (newBudget * binary64 0.1))\<rparr>\<rparr>))"

text \<open>\<^verbatim>\<open>POST /api/expenses\<close> (\<^verbatim>\<open>server.js\<close> 185-227): two subtractions.\<close>

definition post_expenses64 :: "user \<Rightarrow> expense_req \<Rightarrow> string \<Rightarrow> error + user" where
  "post_expenses64 u r today =
     (if \<not> expense_valid r then Inl ValidationError
      else case categoryKey (req_category r) of
        Undefined \<Rightarrow> Inl InvalidCategory
      | Key k \<Rightarrow>
          if req_amount r > alloc_get k (allocations u) then Inl InsufficientAllocation
          else Inr (u\<lparr>expenses := expenses u @ [newExpense r today],
                      initialBudget := binary64 (initialBudget u - req_amount r),
                      allocations :=
                        alloc_set k (binary64 (alloc_get k (allocations u) - req_amount r)) (allocations u)\<rparr>)
      | Inherited \<Rightarrow>
          Inr (u\<lparr>expenses := expenses u @ [newExpense r today],
                 initialBudget := binary64 (initialBudget u - req_amount r)\<rparr>))"

text \<open>
  \<^verbatim>\<open>DELETE /api/expenses/:index\<close> (\<^verbatim>\<open>server.js\<close> 229-253): two additions. \<^verbatim>\<open>NaN\<close>
  passes both comparisons of the range check; \<^verbatim>\<open>user.expenses[NaN]\<close> is \<^verbatim>\<open>undefined\<close>
  and reading its \<^verbatim>\<open>category\<close> throws, which the \<^verbatim>\<open>catch\<close> answers with status 500.
  For a stored category that is no label, the assignment to
  \<^verbatim>\<open>user.allocations[categoryKey]\<close> writes no path of the schema.
\<close>

definition delete_expenses64 :: "user \<Rightarrow> js_index \<Rightarrow> error + user" where
  "delete_expenses64 u index =
     (case index of
        NaN \<Rightarrow> Inl ServerError
      | Index i \<Rightarrow>
          if i < 0 \<or> i \<ge> int (length (expenses u)) then Inl InvalidIndex
          else
            let deletedExpense = expenses u ! nat i;
                u1 = u\<lparr>initialBudget := binary64 (initialBudget u + exp_amount deletedExpense)\<rparr>;
                u2 = (case categoryKey (exp_category deletedExpense) of
                        Key k \<Rightarrow>
                          u1\<lparr>allocations :=
                               alloc_set k (binary64 (alloc_get k (allocations u1) + exp_amount deletedExpense))
                                 (allocations u1)\<rparr>
                      | Inherited \<Rightarrow> u1
                      | Undefined \<Rightarrow> u1)
            in Inr (u2\<lparr>expenses := splice1 (nat i) (expenses u2)\<rparr>))"

subsection \<open>The investment handlers\<close>

text \<open>
  The two variants of the investment routes: \<^verbatim>\<open>server.js\<close> (lines 326-376) and the
  second document of \<^verbatim>\<open>part_000\<close> (lines 956-1024).
\<close>

datatype variant = ServerJs | Part000

text \<open>The validators of \<^verbatim>\<open>POST /api/investments\<close>, the same in both variants.\<close>

definition investment_valid :: "investment_req \<Rightarrow> bool" where
  "investment_valid r \<longleftrightarrow> 0 \<le> ireq_amount r \<and> 0 \<le> ireq_price r \<and> ireq_type r \<noteq> []"

text \<open>
  \<^verbatim>\<open>user.allocations.selfInvestment + user.allocations.emergency\<close>, and
  \<^verbatim>\<open>Object.values(user.allocations).reduce((sum, val) => sum + val, 0)\<close>, which rounds
  after each addition.
\<close>

definition investmentBudget64 :: "user \<Rightarrow> number" where
  "investmentBudget64 u = binary64 (selfInvestment (allocations u) + emergency (allocations u))"

definition allocations_total64 :: "allocs \<Rightarrow> number" where
  "allocations_total64 a =
     binary64 (binary64 (binary64 (binary64 (binary64 (0 + essentials a) + savings a)
       + selfInvestment a) + charity a) + emergency a)"

text \<open>
  The portfolio total; \<open>None\<close> is \<^verbatim>\<open>NaN\<close>. \<^verbatim>\<open>part_000\<close> adds
  \<^verbatim>\<open>user.investmentHistory.reduce((sum, inv) => sum + inv.amount, 0)\<close>: 0 for the empty
  list, and \<^verbatim>\<open>NaN\<close> otherwise, a string having no \<^verbatim>\<open>amount\<close>.
\<close>

definition totalPortfolio64 :: "variant \<Rightarrow> user \<Rightarrow> number option" where
  "totalPortfolio64 v u =
     (case v of
        ServerJs \<Rightarrow> Some (allocations_total64 (allocations u))
      | Part000 \<Rightarrow>
          if investmentHistory u = [] then Some (binary64 (allocations_total64 (allocations u) + 0))
          else None)"

text \<open>
  \<^verbatim>\<open>POST /api/investments\<close>. After the validators and the two guards the handler builds
  \<^verbatim>\<open>newInvestment\<close>, an object, and calls \<^verbatim>\<open>user.investmentHistory.push(newInvestment)\<close>,
  which throws: the \<^verbatim>\<open>catch\<close> answers with status 500, and the debit of
  \<^verbatim>\<open>part_000\<close> (line 996) and \<^verbatim>\<open>user.save()\<close> are never reached. A comparison with
  \<^verbatim>\<open>NaN\<close> is false.
\<close>

definition post_investments64 :: "variant \<Rightarrow> user \<Rightarrow> investment_req \<Rightarrow> error + user" where
  "post_investments64 v u r =
     (if \<not> investment_valid r then Inl ValidationError
      else if ireq_amount r > investmentBudget64 u then Inl InsufficientBudget
      else if (case totalPortfolio64 v u of
                 None \<Rightarrow> False
               | Some totalPortfolio \<Rightarrow>
                   totalPortfolio > 0 \<and> binary64 (ireq_amount r / totalPortfolio) > binary64 0.1)
           then Inl PortfolioRisk
      else Inl ServerError)"

text \<open>
  \<^verbatim>\<open>DELETE /api/investments/:index\<close>. \<^verbatim>\<open>NaN\<close> passes the range check. \<^verbatim>\<open>server.js\<close>
  then runs \<^verbatim>\<open>splice(NaN, 1)\<close>, which starts at 0, saves and answers 200. \<^verbatim>\<open>part_000\<close>
  first reads \<^verbatim>\<open>deletedInvestment.amount\<close>: for \<^verbatim>\<open>NaN\<close> the element is \<^verbatim>\<open>undefined\<close>
  and the read throws; for an index in range the element is a string, the amount is
  \<^verbatim>\<open>undefined\<close>, \<^verbatim>\<open>selfInvestment\<close> becomes \<^verbatim>\<open>NaN\<close>, and \<^verbatim>\<open>user.save()\<close> rejects a
  Number path that holds \<^verbatim>\<open>NaN\<close>; both end in the \<^verbatim>\<open>catch\<close>, with nothing saved.
\<close>

definition delete_investments64 :: "variant \<Rightarrow> user \<Rightarrow> js_index \<Rightarrow> error + user" where
  "delete_investments64 v u index =
     (case index of
        NaN \<Rightarrow>
          (case v of
             ServerJs \<Rightarrow> Inr (u\<lparr>investmentHistory := splice1 0 (investmentHistory u)\<rparr>)
           | Part000 \<Rightarrow> Inl ServerError)
      | Index i \<Rightarrow>
          if i < 0 \<or> i \<ge> int (length (investmentHistory u)) then Inl InvalidIndex
          else
            (case v of
               ServerJs \<Rightarrow> Inr (u\<lparr>investmentHistory := splice1 (nat i) (investmentHistory u)\<rparr>)
             | Part000 \<Rightarrow> Inl ServerError))"

subsection \<open>Sequences of requests\<close>

text \<open>
  The five mutating requests of one account (an expense with the clock reading the
  handler takes for a default date). A request answered with an error saves nothing, so
  the stored document stays as it was and the next request sees it.
\<close>

datatype op =
  InjectBudget number
  | RecordExpense expense_req string
  | DeleteExpense js_index
  | RecordInvestment investment_req
  | DeleteInvestment js_index

fun handle64 :: "variant \<Rightarrow> user \<Rightarrow> op \<Rightarrow> error + user" where
  "handle64 v u (InjectBudget a) = post_initial_budget64 u a"
| "handle64 v u (RecordExpense r today) = post_expenses64 u r today"
| "handle64 v u (DeleteExpense i) = delete_expenses64 u i"
| "handle64 v u (RecordInvestment r) = post_investments64 v u r"
| "handle64 v u (DeleteInvestment i) = delete_investments64 v u i"

definition step64 :: "variant \<Rightarrow> user \<Rightarrow> op \<Rightarrow> user" where
  "step64 v u x = (case handle64 v u x of Inl e \<Rightarrow> u | Inr u' \<Rightarrow> u')"

definition run64 :: "variant \<Rightarrow> user \<Rightarrow> op list \<Rightarrow> user" where
  "run64 v u xs = foldl (step64 v) u xs"






text \<open>
  A bound \<open>M\<close> on the magnitudes a run meets: the budget and the five balances of every
  document on the way, and the amount of every request.
\<close>

definition allocs_within :: "number \<Rightarrow> allocs \<Rightarrow> bool" where
  "allocs_within M a \<longleftrightarrow>
     \<bar>essentials a\<bar> \<le> M \<and> \<bar>savings a\<bar> \<le> M \<and> \<bar>selfInvestment a\<bar> \<le> M \<and> \<bar>charity a\<bar> \<le> M
     \<and> \<bar>emergency a\<bar> \<le> M"

definition ledger_within :: "number \<Rightarrow> user \<Rightarrow> bool" where
  "ledger_within M u \<longleftrightarrow> \<bar>initialBudget u\<bar> \<le> M \<and> allocs_within M (allocations u)"






text \<open>
  A ledger whose balances and listed amounts are not negative, and two balance maps that
  differ by at most \<open>d\<close> in each balance.
\<close>

definition ledger_nonneg :: "user \<Rightarrow> bool" where
  "ledger_nonneg u \<longleftrightarrow> allocs_nonneg (allocations u) \<and> list_all (\<lambda>e. 0 \<le> exp_amount e) (expenses u)"

definition allocs_close :: "number \<Rightarrow> allocs \<Rightarrow> allocs \<Rightarrow> bool" where
  "allocs_close d a b \<longleftrightarrow>
     \<bar>essentials a - essentials b\<bar> \<le> d \<and> \<bar>savings a - savings b\<bar> \<le> d
     \<and> \<bar>selfInvestment a - selfInvestment b\<bar> \<le> d \<and> \<bar>charity a - charity b\<bar> \<le> d
     \<and> \<bar>emergency a - emergency b\<bar> \<le> d"

subsection \<open>The price endpoint\<close>

text \<open>
  JavaScript values as the price handlers meet them: what \<^verbatim>\<open>JSON.parse\<close> gives for a
  response body, and \<^verbatim>\<open>undefined\<close> and \<^verbatim>\<open>NaN\<close>.
\<close>

datatype jsvalue =
  JUndefined | JNull | JNaN | JBool bool | JNum number | JStr string
  | JArr "jsvalue list" | JObj "(string \<times> jsvalue) list"

text \<open>An evaluation that may throw.\<close>

datatype 'a attempt = Threw | Returned 'a

text \<open>
  The property read \<^verbatim>\<open>v.name\<close>, for the names the handlers read (none of them is a
  member of a prototype): a \<^verbatim>\<open>TypeError\<close> on \<^verbatim>\<open>undefined\<close> and \<^verbatim>\<open>null\<close>, the own
  property of an object (which lists each of its keys once), and \<^verbatim>\<open>undefined\<close>
  otherwise.
\<close>

fun get_prop :: "jsvalue \<Rightarrow> string \<Rightarrow> jsvalue attempt" where
  "get_prop JUndefined name = Threw"
| "get_prop JNull name = Threw"
| "get_prop (JObj kvs) name = Returned (case map_of kvs name of None \<Rightarrow> JUndefined | Some v \<Rightarrow> v)"
| "get_prop v name = Returned JUndefined"

fun path :: "jsvalue \<Rightarrow> string list \<Rightarrow> jsvalue attempt" where
  "path v [] = Returned v"
| "path v (name # names) = (case get_prop v name of Threw \<Rightarrow> Threw | Returned w \<Rightarrow> path w names)"

text \<open>
  What \<^verbatim>\<open>axios.get\<close> does on one call: it resolves with the response data, or rejects
  with an error that carries the status of the response, if there was one.
\<close>

datatype http = Resolves jsvalue | Rejects "nat option"

text \<open>
  The Redis client: \<^verbatim>\<open>get\<close> returns the unexpired entry of a key (\<^verbatim>\<open>null\<close> when there
  is none) or throws; \<^verbatim>\<open>setEx\<close> succeeds or throws.
\<close>

record redis =
  redis_get :: "string \<Rightarrow> string option attempt"
  redis_setEx :: "string \<Rightarrow> nat \<Rightarrow> string \<Rightarrow> bool"

text \<open>
  What a request to the price endpoint depends on: the client (\<^verbatim>\<open>null\<close> when the
  connection failed at start-up), \<^verbatim>\<open>process.env.CMC_API_KEY\<close>, the three upstream
  sources (the outcome of the \<open>i\<close>-th call to each within the request), and two
  functions of the runtime: \<^verbatim>\<open>parseFloat\<close> on a string (a number or \<^verbatim>\<open>NaN\<close>), and
  the conversion to a string of a value other than \<^verbatim>\<open>undefined\<close> and \<^verbatim>\<open>null\<close> (which
  throws for an object whose \<^verbatim>\<open>toString\<close> cannot be called).
\<close>

record env =
  redisClient :: "redis option"
  cmc_api_key :: "string option"
  coingecko :: "nat \<Rightarrow> http"
  coinmarketcap :: "nat \<Rightarrow> http"
  binance :: "nat \<Rightarrow> http"
  js_parseFloat :: "string \<Rightarrow> jsvalue"
  js_toString :: "jsvalue \<Rightarrow> string attempt"

text \<open>
  The response, with the number of \<^verbatim>\<open>axios.get\<close> calls the request made and the
  entries it wrote to the cache (key, seconds to live, text).
\<close>

record outcome =
  status :: nat
  body :: "(string \<times> jsvalue) list"
  upstream_calls :: nat
  cache_writes :: "(string \<times> nat \<times> string) list"

text \<open>
  \<^verbatim>\<open>fetchWithRetry\<close> of the second document of \<^verbatim>\<open>part_000\<close> (lines 647-660), from
  attempt \<open>i\<close> on: the data or the last error, and the number of calls made. The wait
  after a status 429 takes time and changes no value. A loop that ends without a
  \<^verbatim>\<open>return\<close> gives \<^verbatim>\<open>undefined\<close>.
\<close>

function fetchWithRetry :: "(nat \<Rightarrow> http) \<Rightarrow> nat \<Rightarrow> nat \<Rightarrow> http \<times> nat" where
  "fetchWithRetry source retries i =
     (if i < retries then
        (case source i of
           Resolves data \<Rightarrow> (Resolves data, Suc i)
         | Rejects st \<Rightarrow>
             if i = retries - 1 then (Rejects st, Suc i)
             else fetchWithRetry source retries (Suc i))
      else (Resolves JUndefined, i))"
  by pat_completeness auto
termination
  by (relation "measure (\<lambda>(source, retries, i). retries - i)") auto

definition fallbackPrice :: number where
  "fallbackPrice = 117783.89"

text \<open>The warning of the fallback response and the error of \<^verbatim>\<open>server.js\<close>, as UTF-8 bytes.\<close>

definition warning_text :: string where
  "warning_text = ''Kh'' @ [CHR 0xC3, CHR 0xB4] @ ''ng th'' @ [CHR 0xE1, CHR 0xBB, CHR 0x83] @ '' l''
     @ [CHR 0xE1, CHR 0xBA, CHR 0xA5] @ ''y gi'' @ [CHR 0xC3, CHR 0xA1] @ '' Bitcoin t''
     @ [CHR 0xE1, CHR 0xBB, CHR 0xAB] @ '' API''"

definition error_text :: string where
  "error_text = ''L'' @ [CHR 0xE1, CHR 0xBB, CHR 0x97] @ ''i l'' @ [CHR 0xE1, CHR 0xBA, CHR 0xA5]
     @ ''y gi'' @ [CHR 0xC3, CHR 0xA1] @ '' Bitcoin''"

text \<open>
  The cache read of the handler: a missing client, a throwing \<^verbatim>\<open>get\<close>, \<^verbatim>\<open>null\<close> and
  the empty string (falsy in \<^verbatim>\<open>if (cachedPrice)\<close>) all fall through.
\<close>

definition cache_lookup :: "env \<Rightarrow> string option" where
  "cache_lookup e =
     (case redisClient e of
        None \<Rightarrow> None
      | Some client \<Rightarrow>
          (case redis_get client ''bitcoin_price'' of
             Threw \<Rightarrow> None
           | Returned None \<Rightarrow> None
           | Returned (Some cachedPrice) \<Rightarrow> if cachedPrice = [] then None else Some cachedPrice))"

text \<open>
  \<^verbatim>\<open>v.toString()\<close> throws on \<^verbatim>\<open>undefined\<close> and \<^verbatim>\<open>null\<close>; \<^verbatim>\<open>parseFloat(v)\<close>
  converts its argument to a string first, and there \<^verbatim>\<open>undefined\<close> and \<^verbatim>\<open>null\<close>
  have a text.
\<close>

definition toString_call :: "env \<Rightarrow> jsvalue \<Rightarrow> string attempt" where
  "toString_call e v = (if v = JUndefined \<or> v = JNull then Threw else js_toString e v)"

definition parseFloat_value :: "env \<Rightarrow> jsvalue \<Rightarrow> jsvalue attempt" where
  "parseFloat_value e v =
     (case (if v = JUndefined then Returned ''undefined''
            else if v = JNull then Returned ''null''
            else js_toString e v) of
        Threw \<Rightarrow> Threw
      | Returned s \<Rightarrow> Returned (js_parseFloat e s))"

text \<open>
  The write-through \<^verbatim>\<open>redisClient.setEx('bitcoin_price', 300, price.toString())\<close>, in a
  \<^verbatim>\<open>try\<close> of its own.
\<close>

definition cache_store :: "env \<Rightarrow> jsvalue \<Rightarrow> (string \<times> nat \<times> string) list" where
  "cache_store e price =
     (case redisClient e of
        None \<Rightarrow> []
      | Some client \<Rightarrow>
          (case toString_call e price of
             Threw \<Rightarrow> []
           | Returned text \<Rightarrow>
               if redis_setEx client ''bitcoin_price'' 300 text
               then [(''bitcoin_price'', 300, text)]
               else []))"

text \<open>One source: the fetch with its retries, then the read of the price in the data.\<close>

definition coingecko_quote :: "env \<Rightarrow> jsvalue attempt \<times> nat" where
  "coingecko_quote e =
     (case fetchWithRetry (coingecko e) 3 0 of
        (Rejects st, n) \<Rightarrow> (Threw, n)
      | (Resolves data, n) \<Rightarrow> (path data [''bitcoin'', ''usd''], n))"

definition cmc_quote :: "env \<Rightarrow> jsvalue attempt \<times> nat" where
  "cmc_quote e =
     (case fetchWithRetry (coinmarketcap e) 3 0 of
        (Rejects st, n) \<Rightarrow> (Threw, n)
      | (Resolves cmcData, n) \<Rightarrow> (path cmcData [''data'', ''BTC'', ''quote'', ''USD'', ''price''], n))"

definition binance_quote :: "env \<Rightarrow> jsvalue attempt \<times> nat" where
  "binance_quote e =
     (case fetchWithRetry (binance e) 3 0 of
        (Rejects st, n) \<Rightarrow> (Threw, n)
      | (Resolves binanceData, n) \<Rightarrow>
          (case get_prop binanceData ''price'' of
             Threw \<Rightarrow> (Threw, n)
           | Returned p \<Rightarrow> (parseFloat_value e p, n)))"

definition cmc_configured :: "env \<Rightarrow> bool" where
  "cmc_configured e = (case cmc_api_key e of None \<Rightarrow> False | Some k \<Rightarrow> k \<noteq> [])"

definition price_response :: "env \<Rightarrow> jsvalue \<Rightarrow> nat \<Rightarrow> outcome" where
  "price_response e price n =
     \<lparr>status = 200, body = [(''price'', price)], upstream_calls = n, cache_writes = cache_store e price\<rparr>"

text \<open>
  \<^verbatim>\<open>GET /api/bitcoin-price\<close>, second document of \<^verbatim>\<open>part_000\<close> (lines 1026-1105).
  Every statement that can throw stands in a \<^verbatim>\<open>try\<close> of its own, so the outer
  \<^verbatim>\<open>catch\<close> (status 500) is never entered.
\<close>

definition get_bitcoin_price :: "env \<Rightarrow> outcome" where
  "get_bitcoin_price e =
     (case cache_lookup e of
        Some cachedPrice \<Rightarrow>
          \<lparr>status = 200, body = [(''price'', js_parseFloat e cachedPrice)],
           upstream_calls = 0, cache_writes = []\<rparr>
      | None \<Rightarrow>
          (case coingecko_quote e of
             (Returned price, n1) \<Rightarrow> price_response e price n1
           | (Threw, n1) \<Rightarrow>
               (case (if cmc_configured e then cmc_quote e else (Threw, 0)) of
                  (Returned price, n2) \<Rightarrow> price_response e price (n1 + n2)
                | (Threw, n2) \<Rightarrow>
                    (case binance_quote e of
                       (Returned price, n3) \<Rightarrow> price_response e price (n1 + n2 + n3)
                     | (Threw, n3) \<Rightarrow>
                         \<lparr>status = 200,
                          body = [(''price'', JNum fallbackPrice), (''warning'', JStr warning_text)],
                          upstream_calls = n1 + n2 + n3, cache_writes = []\<rparr>))))"

text \<open>
  \<^verbatim>\<open>GET /api/bitcoin-price\<close> of \<^verbatim>\<open>server.js\<close> (lines 378-388): one call to the first
  source, no cache, and status 500 with an \<^verbatim>\<open>error\<close> field when the call or the read of
  \<^verbatim>\<open>response.data.bitcoin.usd\<close> throws.
\<close>

definition server_js_get_bitcoin_price :: "env \<Rightarrow> outcome" where
  "server_js_get_bitcoin_price e =
     (case (case coingecko e 0 of
              Rejects st \<Rightarrow> Threw
            | Resolves data \<Rightarrow> path data [''bitcoin'', ''usd'']) of
        Returned price \<Rightarrow>
          \<lparr>status = 200, body = [(''price'', price)], upstream_calls = 1, cache_writes = []\<rparr>
      | Threw \<Rightarrow>
          \<lparr>status = 500, body = [(''error'', JStr error_text)], upstream_calls = 1, cache_writes = []\<rparr>)"

subsection \<open>Concrete ledgers and requests\<close>

text \<open>
  The ledger the scenario of the specification starts from, after one injection of 1000:
  the allocations are 500, 200, 150, 50 and 100.
\<close>

definition fresh :: user where
  "fresh = new_user ''an'' ''secret''"

definition funded :: user where
  "funded = fresh\<lparr>initialBudget := 1000,
     allocations := \<lparr>essentials = 500, savings = 200, selfInvestment = 150, charity = 50, emergency = 100\<rparr>\<rparr>"

definition groceries :: expense_req where
  "groceries = \<lparr>req_amount = 100, req_category = label_essentials, req_purpose = ''food'',
     req_location = ''market'', req_date = None\<rparr>"

definition today0 :: string where
  "today0 = ''2/11/2026''"

text \<open>The funded ledger after the expense of 100 on essentials.\<close>

definition spent :: user where
  "spent = funded\<lparr>expenses := [newExpense groceries today0], initialBudget := 900,
     allocations := \<lparr>essentials = 400, savings = 200, selfInvestment = 150, charity = 50, emergency = 100\<rparr>\<rparr>"

text \<open>
  An investment of 100 at price 1: within \<open>selfInvestment + emergency\<close> of the funded
  ledger (250) and a tenth of its allocations (1000).
\<close>

definition etf :: investment_req where
  "etf = \<lparr>ireq_amount = 100, ireq_price = 1, ireq_type = ''Bitcoin ETF''\<rparr>"

text \<open>
  An expense of 100 on self-investment, which leaves 50 there on the funded ledger, and
  an investment of 80: above that balance, within \<open>selfInvestment + emergency\<close> (150)
  and within a tenth of the allocations (900).
\<close>

definition course :: expense_req where
  "course = \<lparr>req_amount = 100, req_category = label_selfInvestment, req_purpose = ''course'',
     req_location = ''school'', req_date = None\<rparr>"

definition thin :: user where
  "thin = funded\<lparr>expenses := [newExpense course today0], initialBudget := 900,
     allocations := \<lparr>essentials = 500, savings = 200, selfInvestment = 50, charity = 50, emergency = 100\<rparr>\<rparr>"

definition etf80 :: investment_req where
  "etf80 = \<lparr>ireq_amount = 80, ireq_price = 1, ireq_type = ''Bitcoin ETF''\<rparr>"


definition snack :: expense_req where
  "snack = \<lparr>req_amount = binary64 0.03, req_category = label_selfInvestment, req_purpose = ''pen'',
     req_location = ''shop'', req_date = None\<rparr>"

text \<open>
  The ledger after an injection of 2 into the new account, after the expense of
  \<^verbatim>\<open>0.03\<close> on self-investment, and after the deletion of that expense: the balance
  of self-investment is \<^verbatim>\<open>0.3\<close>, then \<^verbatim>\<open>0.27\<close>, then \<^verbatim>\<open>0.30000000000000004\<close>,
  the double next above \<^verbatim>\<open>0.3\<close>.
\<close>

definition seeded :: user where
  "seeded = fresh\<lparr>initialBudget := 2,
     allocations := \<lparr>essentials = 1, savings = binary64 0.4, selfInvestment = binary64 0.3,
       charity = binary64 0.1, emergency = binary64 0.2\<rparr>\<rparr>"

definition nibbled :: user where
  "nibbled = seeded\<lparr>expenses := [newExpense snack today0], initialBudget := binary64 1.97,
     allocations := \<lparr>essentials = 1, savings = binary64 0.4, selfInvestment = binary64 0.27,
       charity = binary64 0.1, emergency = binary64 0.2\<rparr>\<rparr>"

definition reverted :: user where
  "reverted = seeded\<lparr>allocations := \<lparr>essentials = 1, savings = binary64 0.4,
     selfInvestment = binary64 0.3 + 1 / 2 ^ 54, charity = binary64 0.1, emergency = binary64 0.2\<rparr>\<rparr>"


text \<open>
  An environment whose three sources reject every call (a timeout: no response), with a
  configured key and a connected, empty cache; and one with a cached price and a
  first source that answers 70000.
\<close>

definition quiet_redis :: redis where
  "quiet_redis = \<lparr>redis_get = (\<lambda>k. Returned None), redis_setEx = (\<lambda>k ttl v. True)\<rparr>"

definition outage :: env where
  "outage = \<lparr>redisClient = Some quiet_redis, cmc_api_key = Some ''key'',
     coingecko = (\<lambda>i. Rejects None), coinmarketcap = (\<lambda>i. Rejects None),
     binance = (\<lambda>i. Rejects None),
     js_parseFloat = (\<lambda>s. JNaN), js_toString = (\<lambda>v. Returned ''?'')\<rparr>"

definition warm_redis :: redis where
  "warm_redis = \<lparr>redis_get = (\<lambda>k. if k = ''bitcoin_price'' then Returned (Some ''65000'') else Returned None),
     redis_setEx = (\<lambda>k ttl v. True)\<rparr>"

definition cached :: env where
  "cached = \<lparr>redisClient = Some warm_redis, cmc_api_key = None,
     coingecko = (\<lambda>i. Resolves (JObj [(''bitcoin'', JObj [(''usd'', JNum 70000)])])),
     coinmarketcap = (\<lambda>i. Rejects None), binance = (\<lambda>i. Rejects None),
     js_parseFloat = (\<lambda>s. if s = ''65000'' then JNum 65000 else JNaN),
     js_toString = (\<lambda>v. Returned ''?'')\<rparr>"

section \<open>Properties\<close>

subsection \<open>Lists and allocations\<close>


lemma list_all_splice1: "list_all P xs \<Longrightarrow> list_all P (splice1 i xs)"
  unfolding splice1_def list_all_iff by (auto dest: in_set_takeD in_set_dropD)

lemma splice1_snoc: "splice1 (length xs) (xs @ [x]) = xs"
  by (simp add: splice1_def)

lemma alloc_get_alloc_add: "alloc_get k (alloc_add k d a) = alloc_get k a + d"
  by (cases k) simp_all

subsection \<open>Category lookup\<close>

lemmas label_defs =
  label_essentials_def label_savings_def label_selfInvestment_def label_charity_def
  label_emergency_def

lemma categoryKey_labels:
  "categoryKey label_essentials = Key Essentials"
  "categoryKey label_savings = Key Savings"
  "categoryKey label_selfInvestment = Key SelfInvestment"
  "categoryKey label_charity = Key Charity"
  "categoryKey label_emergency = Key Emergency"
  by (simp_all add: categoryKey_def label_defs)

lemma labels_nonempty:
  "label_essentials \<noteq> []" "label_savings \<noteq> []" "label_selfInvestment \<noteq> []"
  "label_charity \<noteq> []" "label_emergency \<noteq> []"
  by (simp_all add: label_defs)

lemma categoryKey_nonempty: "categoryKey c \<noteq> Undefined \<Longrightarrow> c \<noteq> []"
  by (auto simp: categoryKey_def label_defs object_prototype_names_def)

lemma categoryKey_constructor: "categoryKey ''constructor'' = Inherited"
  by (simp add: categoryKey_def label_defs object_prototype_names_def)

subsection \<open>Rounding\<close>

text \<open>Rounding to an integer moves a number by at most a half.\<close>

lemma rhe_near: "\<bar>of_int (rhe y) - y\<bar> \<le> 1 / 2"
proof -
  define d where "d = y - of_int \<lfloor>y\<rfloor>"
  have d: "0 \<le> d" "d < 1" unfolding d_def by linarith+
  have y: "y = of_int \<lfloor>y\<rfloor> + d" by (simp add: d_def)
  consider "d < 1/2" | "d > 1/2" | "d = 1/2" by linarith
  then show ?thesis
  proof cases
    case 1
    then have "rhe y = \<lfloor>y\<rfloor>" by (simp add: rhe_def Let_def d_def)
    with 1 d show ?thesis by (simp add: d_def)
  next
    case 2
    then have "rhe y = \<lfloor>y\<rfloor> + 1" by (simp add: rhe_def Let_def d_def)
    with 2 d show ?thesis by (simp add: d_def)
  next
    case 3
    then have "rhe y = \<lfloor>y\<rfloor> \<or> rhe y = \<lfloor>y\<rfloor> + 1"
      by (simp add: rhe_def Let_def d_def)
    with 3 show ?thesis by (auto simp: d_def)
  qed
qed

lemma rhe_nonneg: "0 \<le> y \<Longrightarrow> 0 \<le> rhe y"
  by (auto simp: rhe_def Let_def)

lemma rhe_0: "rhe 0 = 0"
  by (simp add: rhe_def)

text \<open>The exponent \<open>e\<close> of a positive number \<open>y\<close>: \<open>2\<^sup>e \<le> y < 2\<^sup>e\<^sup>+\<^sup>1\<close>.\<close>

lemma ilog2_le:
  assumes "0 < y" shows "2 powi (ilog2 y) \<le> y"
proof -
  obtain p q where pq: "quotient_of y = (p, q)" by force
  then have q: "0 < q" and y: "y = of_int p / of_int q"
    using quotient_of_denom_pos quotient_of_div by blast+
  with assms have p: "0 < p" by (simp add: zero_less_divide_iff)
  let ?d = "bitlen p - bitlen q"
  show ?thesis
  proof (cases "(2::rat) powi ?d \<le> y")
    case True then show ?thesis by (simp add: ilog2_def pq)
  next
    case False
    have bp: "2 ^ nat (bitlen p - 1) \<le> p" and bq: "q < 2 ^ nat (bitlen q)"
      using bitlen_bounds p q by blast+
    have bp1: "1 \<le> bitlen p" and bq1: "1 \<le> bitlen q"
      using p q by (simp_all add: bitlen_def floorlog_def)
    have "(2::rat) powi (?d - 1) = 2 powi (bitlen p - 1) / 2 powi (bitlen q)"
      by (simp add: power_int_diff)
    also have "\<dots> = 2 ^ nat (bitlen p - 1) / 2 ^ nat (bitlen q)"
      using bp1 bq1 by (simp add: power_int_def)
    also have "\<dots> \<le> of_int p / of_int q"
    proof -
      have a: "(2::rat) ^ nat (bitlen p - 1) \<le> of_int p"
        using bp by (metis of_int_le_iff of_int_numeral of_int_power)
      have b: "(of_int q :: rat) \<le> 2 ^ nat (bitlen q)"
        using bq by (metis less_imp_le of_int_le_iff of_int_numeral of_int_power)
      show ?thesis
        by (rule frac_le) (use a b q p in auto)
    qed
    finally have "(2::rat) powi (?d - 1) \<le> y" by (simp add: y)
    moreover have "ilog2 y = ?d - 1" using False by (simp add: ilog2_def pq)
    ultimately show ?thesis by simp
  qed
qed


lemma ilog2_less:
  assumes "0 < y" shows "y < 2 powi (ilog2 y + 1)"
proof -
  obtain p q where pq: "quotient_of y = (p, q)" by force
  then have q: "0 < q" and y: "y = of_int p / of_int q"
    using quotient_of_denom_pos quotient_of_div by blast+
  with assms have p: "0 < p" by (simp add: zero_less_divide_iff)
  let ?d = "bitlen p - bitlen q"
  show ?thesis
  proof (cases "(2::rat) powi ?d \<le> y")
    case False
    then have "ilog2 y = ?d - 1" by (simp add: ilog2_def pq)
    with False show ?thesis by simp
  next
    case True
    then have i: "ilog2 y = ?d" by (simp add: ilog2_def pq)
    have bp: "p < 2 ^ nat (bitlen p)" and bq: "2 ^ nat (bitlen q - 1) \<le> q"
      using bitlen_bounds p q by blast+
    have bp1: "1 \<le> bitlen p" and bq1: "1 \<le> bitlen q"
      using p q by (simp_all add: bitlen_def floorlog_def)
    have a: "(of_int p :: rat) < 2 ^ nat (bitlen p)"
      using bp by (metis of_int_less_iff of_int_numeral of_int_power)
    have b: "(2::rat) ^ nat (bitlen q - 1) \<le> of_int q"
      using bq by (metis of_int_le_iff of_int_numeral of_int_power)
    have "of_int p / of_int q < (2::rat) ^ nat (bitlen p) / 2 ^ nat (bitlen q - 1)"
      by (rule frac_less) (use a b q p in auto)
    also have "\<dots> = 2 powi (bitlen p) / 2 powi (bitlen q - 1)"
      using bp1 bq1 by (simp add: power_int_def)
    also have "\<dots> = 2 powi (bitlen p - (bitlen q - 1))"
      by (rule power_int_diff [symmetric]) simp
    also have "bitlen p - (bitlen q - 1) = ?d + 1"
      by simp
    finally have "y < 2 powi (?d + 1)" by (simp add: y)
    with i show ?thesis by simp
  qed
qed

text \<open>
  One rounding moves a number by at most its magnitude times the unit roundoff, or by half
  the least spacing in the subnormal range.
\<close>

lemma binary64_error: "\<bar>binary64 x - x\<bar> \<le> u64 * \<bar>x\<bar> + eta64"
proof (cases "x = 0")
  case True then show ?thesis by (simp add: binary64_def u64_def eta64_def)
next
  case False
  define e where "e = max (ilog2 \<bar>x\<bar>) (- 1022)"
  define q :: rat where "q = 2 powi (e - 52)"
  have q: "0 < q" by (simp add: q_def)
  have fl: "binary64 x = of_int (rhe (x / q)) * q"
    using False by (simp add: binary64_def e_def q_def Let_def)
  have "binary64 x - x = (of_int (rhe (x / q)) - x / q) * q"
    using q by (simp add: fl field_simps)
  then have "\<bar>binary64 x - x\<bar> = \<bar>of_int (rhe (x / q)) - x / q\<bar> * q"
    using q by (simp add: abs_mult)
  also have "\<dots> \<le> (1/2) * q"
    using rhe_near [of "x / q"] q by (simp add: mult_right_mono)
  also have "\<dots> = 2 powi (e - 53)"
    by (simp add: q_def power_int_diff)
  finally have b: "\<bar>binary64 x - x\<bar> \<le> 2 powi (e - 53)" .
  show ?thesis
  proof (cases "ilog2 \<bar>x\<bar> \<ge> - 1022")
    case True
    then have "e = ilog2 \<bar>x\<bar>" by (simp add: e_def)
    then have "(2::rat) powi e \<le> \<bar>x\<bar>" using ilog2_le [of "\<bar>x\<bar>"] False by simp
    moreover have "(2::rat) powi (e - 53) = u64 * 2 powi e"
      by (simp add: power_int_diff u64_def power_int_minus field_simps)
    ultimately have "(2::rat) powi (e - 53) \<le> u64 * \<bar>x\<bar>"
      by (simp add: u64_def)
    moreover have "0 \<le> eta64" by (simp add: eta64_def)
    ultimately show ?thesis using b by linarith
  next
    case F: False
    then have "e = - 1022" by (simp add: e_def)
    then have "(2::rat) powi (e - 53) = eta64"
      by (simp add: eta64_def)
    moreover have "0 \<le> u64 * \<bar>x\<bar>" by (simp add: u64_def)
    ultimately show ?thesis using b by linarith
  qed
qed


text \<open>For a number within a bound of at least 1, that is within the bound times the machine epsilon.\<close>

lemma binary64_close:
  assumes "1 \<le> B" "\<bar>x\<bar> \<le> B"
  shows "\<bar>binary64 x - x\<bar> \<le> eps64 * B"
proof -
  have u: "0 \<le> u64" "0 \<le> eta64" by (simp_all add: u64_def eta64_def)
  have "(2::rat) powi (- 1075) \<le> 2 powi (- 53)"
    by (rule power_int_increasing) simp_all
  then have "u64 + eta64 \<le> 2 * u64" by (simp add: u64_def eta64_def)
  also have "\<dots> = eps64" by (simp add: u64_def eps64_def power_int_minus)
  finally have s: "u64 + eta64 \<le> eps64" .
  have "\<bar>binary64 x - x\<bar> \<le> u64 * \<bar>x\<bar> + eta64" by (rule binary64_error)
  also have "\<dots> \<le> u64 * B + eta64 * B"
    using assms u by (intro add_mono mult_left_mono) (auto simp: mult_le_cancel_left1)
  also have "\<dots> = (u64 + eta64) * B" by (simp add: algebra_simps)
  also have "\<dots> \<le> eps64 * B" using s assms by (intro mult_right_mono) auto
  finally show ?thesis .
qed

lemma binary64_nonneg: "0 \<le> x \<Longrightarrow> 0 \<le> binary64 x"
  by (auto simp: binary64_def Let_def intro!: mult_nonneg_nonneg rhe_nonneg divide_nonneg_pos)

lemma binary64_0: "binary64 0 = 0"
  by (simp add: binary64_def)

lemma rhe_le: "y \<le> of_int n \<Longrightarrow> rhe y \<le> n"
  unfolding rhe_def Let_def by (auto split: if_splits) linarith+

lemma rhe_ge: "of_int n \<le> y \<Longrightarrow> n \<le> rhe y"
  unfolding rhe_def Let_def by (auto split: if_splits) linarith+

text \<open>
  A rounded number is a double: an integer of at most 53 bits times the spacing at an
  exponent of at least -1022.
\<close>

lemma binary64_representable:
  "\<exists>n e. binary64 x = of_int n * 2 powi (e - 52) \<and> \<bar>n\<bar> \<le> 2 ^ 53 \<and> - 1022 \<le> e"
proof (cases "x = 0")
  case True
  then have "binary64 x = of_int 0 * 2 powi (0 - 52)" by (simp add: binary64_def)
  then show ?thesis by (intro exI [of _ 0] exI [of _ 0]) simp
next
  case False
  define e where "e = max (ilog2 \<bar>x\<bar>) (- 1022)"
  define q :: rat where "q = 2 powi (e - 52)"
  have q: "0 < q" by (simp add: q_def)
  have fl: "binary64 x = of_int (rhe (x / q)) * q"
    using False by (simp add: binary64_def e_def q_def Let_def)
  have "\<bar>x\<bar> < 2 powi (ilog2 \<bar>x\<bar> + 1)" using False by (intro ilog2_less) simp
  also have "\<dots> \<le> 2 powi (e + 1)"
    by (rule power_int_increasing) (simp_all add: e_def)
  also have "\<dots> = 2 ^ 53 * q"
    by (simp add: q_def power_int_diff power_int_add)
  finally have "\<bar>x\<bar> / q < 2 ^ 53" using q by (simp add: pos_divide_less_eq)
  then have "\<bar>x / q\<bar> < 2 ^ 53" using q by (simp add: abs_divide)
  then have "x / q < 2 ^ 53" "- (2 ^ 53) < x / q"
    unfolding abs_less_iff by linarith+
  then have "x / q \<le> of_int (2 ^ 53)" "of_int (- (2 ^ 53)) \<le> x / q"
    by simp_all
  then have "rhe (x / q) \<le> 2 ^ 53" "- (2 ^ 53) \<le> rhe (x / q)"
    by (simp_all only: rhe_le rhe_ge)
  then have "\<bar>rhe (x / q)\<bar> \<le> 2 ^ 53" by simp
  moreover have "- 1022 \<le> e" by (simp add: e_def)
  ultimately show ?thesis using fl unfolding q_def by blast
qed

subsection \<open>Rounded sums\<close>

lemma alloc_get_alloc_set: "alloc_get k (alloc_set k v a) = v"
  by (cases k) simp_all

lemma alloc_get_alloc_set_other: "j \<noteq> k \<Longrightarrow> alloc_get j (alloc_set k v a) = alloc_get j a"
  by (cases k; cases j) simp_all


lemma allocs_within_get: "allocs_within M a \<Longrightarrow> \<bar>alloc_get k a\<bar> \<le> M"
  by (cases k) (simp_all add: allocs_within_def)

text \<open>
  A rounded sum or difference of two numbers within \<open>M\<close> is within \<open>2 * eps64 * M\<close> of the
  exact one, and the share of an injection that a balance receives within \<open>6 * eps64 * M\<close>.
\<close>

lemma eps64_bounds: "0 < eps64" "eps64 \<le> 1 / 4"
  by (simp_all add: eps64_def)

lemma rounded_sum:
  assumes "1 \<le> M" "\<bar>x\<bar> \<le> M" "\<bar>y\<bar> \<le> M"
  shows "\<bar>binary64 (x + y) - (x + y)\<bar> \<le> 2 * eps64 * M"
proof -
  have "\<bar>x + y\<bar> \<le> 2 * M" using assms by linarith
  moreover have "1 \<le> 2 * M" using assms by linarith
  ultimately have "\<bar>binary64 (x + y) - (x + y)\<bar> \<le> eps64 * (2 * M)"
    by (intro binary64_close)
  then show ?thesis by simp
qed

lemma rounded_diff:
  assumes "1 \<le> M" "\<bar>x\<bar> \<le> M" "\<bar>y\<bar> \<le> M"
  shows "\<bar>binary64 (x - y) - (x - y)\<bar> \<le> 2 * eps64 * M"
  using rounded_sum [OF assms(1,2), of "- y"] assms(3) by simp

lemma rounded_share:
  assumes M: "1 \<le> M" and al: "\<bar>al\<bar> \<le> M" and a: "0 \<le> a" "a \<le> M" and w: "0 \<le> w" "w \<le> 1"
  shows "\<bar>binary64 (al + binary64 (a * binary64 w)) - (al + a * w)\<bar> \<le> 6 * eps64 * M"
proof -
  note e = eps64_bounds
  define bw where "bw = binary64 w"
  define p where "p = a * bw"
  define bp where "bp = binary64 p"
  define s where "s = al + bp"
  have 1: "\<bar>bw - w\<bar> \<le> eps64"
    using binary64_close [of 1 w] w by (simp add: bw_def)
  then have bw: "\<bar>bw\<bar> \<le> 2" using w e by linarith
  have "\<bar>a * bw - a * w\<bar> = a * \<bar>bw - w\<bar>"
    using a by (simp add: abs_mult flip: right_diff_distrib)
  also have "\<dots> \<le> M * eps64"
    using a 1 by (intro mult_mono) auto
  finally have 2: "\<bar>p - a * w\<bar> \<le> eps64 * M" by (simp add: p_def mult.commute)
  have "a * w \<le> M * 1" using a w by (intro mult_mono) auto
  moreover have "0 \<le> a * w" using a w by simp
  ultimately have aw: "\<bar>a * w\<bar> \<le> M" by simp
  have eM: "eps64 * M \<le> M / 4" using e M by (simp add: mult_le_cancel_right)
  have p: "\<bar>p\<bar> \<le> 2 * M" using 2 aw eM M by linarith
  have "1 \<le> 2 * M" using M by linarith
  then have "\<bar>bp - p\<bar> \<le> eps64 * (2 * M)"
    unfolding bp_def using p by (intro binary64_close)
  then have 3: "\<bar>bp - p\<bar> \<le> 2 * eps64 * M" by simp
  have s: "\<bar>s\<bar> \<le> 3 * M" unfolding s_def using al 2 3 aw eM M by linarith
  have "1 \<le> 3 * M" using M by linarith
  then have "\<bar>binary64 s - s\<bar> \<le> eps64 * (3 * M)"
    using s by (intro binary64_close)
  then have 4: "\<bar>binary64 s - s\<bar> \<le> 3 * eps64 * M" by simp
  have "binary64 (al + binary64 (a * binary64 w)) = binary64 s"
    by (simp add: s_def bp_def p_def bw_def)
  then show ?thesis using 2 3 4 unfolding s_def by linarith
qed

subsection \<open>The drift of one request\<close>




text \<open>An accepted expense and an accepted deletion move each drift by one rounding.\<close>

lemma newExpense_fields:
  "exp_amount (newExpense r today) = req_amount r"
  "exp_category (newExpense r today) = req_category r"
  by (simp_all add: newExpense_def)




text \<open>No investment is ever recorded, and on an empty list a deletion changes nothing.\<close>

lemma post_investments64_rejects: "\<exists>e. post_investments64 v u r = Inl e"
  by (simp add: post_investments64_def)



subsection \<open>The drift of a sequence of requests\<close>

lemma run64_Nil: "run64 v u [] = u"
  by (simp add: run64_def)

lemma run64_Cons: "run64 v u (x # xs) = run64 v (step64 v u x) xs"
  by (simp add: run64_def)




subsection \<open>Balances stay non-negative\<close>

text \<open>
  A rounded difference of \<open>a \<le> b\<close> is not negative, nor is a rounded sum or product of
  numbers that are not negative: every accepted request keeps the balances and the
  listed amounts non-negative.
\<close>

lemma alloc_get_nonneg: "allocs_nonneg a \<Longrightarrow> 0 \<le> alloc_get k a"
  by (cases k) (simp_all add: allocs_nonneg_def)

lemma allocs_nonneg_alloc_set:
  "allocs_nonneg a \<Longrightarrow> 0 \<le> x \<Longrightarrow> allocs_nonneg (alloc_set k x a)"
  by (cases k) (simp_all add: allocs_nonneg_def)

lemma nonneg_inject:
  assumes "ledger_nonneg u" "post_initial_budget64 u a = Inr u'"
  shows "ledger_nonneg u'"
proof -
  from assms(2) have a: "0 \<le> a" by (auto simp: post_initial_budget64_def split: if_splits)
  have s: "0 \<le> al \<Longrightarrow> 0 \<le> w \<Longrightarrow> 0 \<le> binary64 (al + binary64 (a * binary64 w))" for al w
    using a by (intro binary64_nonneg add_nonneg_nonneg mult_nonneg_nonneg)
  from assms a show ?thesis
    by (auto simp: post_initial_budget64_def ledger_nonneg_def allocs_nonneg_def intro!: s)
qed

lemma nonneg_expense:
  assumes "ledger_nonneg u" "post_expenses64 u r today = Inr u'"
  shows "ledger_nonneg u'"
proof -
  from assms(2) have v: "expense_valid r" by (auto simp: post_expenses64_def split: if_splits)
  then have a: "0 \<le> req_amount r" by (simp add: expense_valid_def)
  show ?thesis
  proof (cases "categoryKey (req_category r)")
    case (Key k)
    with assms(2) v have le: "req_amount r \<le> alloc_get k (allocations u)"
      and u': "u' = u\<lparr>expenses := expenses u @ [newExpense r today],
        initialBudget := binary64 (initialBudget u - req_amount r),
        allocations := alloc_set k (binary64 (alloc_get k (allocations u) - req_amount r)) (allocations u)\<rparr>"
      by (auto simp: post_expenses64_def split: if_splits)
    from le have "0 \<le> binary64 (alloc_get k (allocations u) - req_amount r)"
      by (intro binary64_nonneg) simp
    with assms(1) a show ?thesis
      by (simp add: u' ledger_nonneg_def allocs_nonneg_alloc_set newExpense_fields)
  next
    case Inherited
    with assms a v show ?thesis
      by (auto simp: post_expenses64_def ledger_nonneg_def newExpense_fields)
  next
    case Undefined
    with assms v show ?thesis by (simp add: post_expenses64_def)
  qed
qed

lemma nonneg_delete_expense:
  assumes "ledger_nonneg u" "delete_expenses64 u i = Inr u'"
  shows "ledger_nonneg u'"
proof (cases i)
  case NaN
  with assms show ?thesis by (simp add: delete_expenses64_def)
next
  case (Index n)
  with assms(2) have rng: "0 \<le> n" "nat n < length (expenses u)"
    by (auto simp: delete_expenses64_def split: if_splits)
  let ?e = "expenses u ! nat n"
  have "?e \<in> set (expenses u)" using rng by simp
  with assms(1) have a: "0 \<le> exp_amount ?e" by (simp add: ledger_nonneg_def list_all_iff)
  have x: "0 \<le> binary64 (alloc_get k (allocations u) + exp_amount ?e)" for k
    using a assms(1) by (intro binary64_nonneg add_nonneg_nonneg alloc_get_nonneg)
      (simp_all add: ledger_nonneg_def)
  show ?thesis
  proof (cases "categoryKey (exp_category ?e)")
    case (Key k)
    have "u' = u\<lparr>initialBudget := binary64 (initialBudget u + exp_amount ?e),
        allocations := alloc_set k (binary64 (alloc_get k (allocations u) + exp_amount ?e)) (allocations u),
        expenses := splice1 (nat n) (expenses u)\<rparr>"
      using assms(2) Index rng Key by (auto simp: delete_expenses64_def Let_def split: if_splits)
    with assms(1) x [of k] show ?thesis
      by (simp add: ledger_nonneg_def list_all_splice1 allocs_nonneg_alloc_set)
  next
    case Inherited
    have "u' = u\<lparr>initialBudget := binary64 (initialBudget u + exp_amount ?e),
        expenses := splice1 (nat n) (expenses u)\<rparr>"
      using assms(2) Index rng Inherited by (auto simp: delete_expenses64_def Let_def split: if_splits)
    with assms(1) show ?thesis
      by (simp add: ledger_nonneg_def list_all_splice1)
  next
    case Undefined
    have "u' = u\<lparr>initialBudget := binary64 (initialBudget u + exp_amount ?e),
        expenses := splice1 (nat n) (expenses u)\<rparr>"
      using assms(2) Index rng Undefined by (auto simp: delete_expenses64_def Let_def split: if_splits)
    with assms(1) show ?thesis
      by (simp add: ledger_nonneg_def list_all_splice1)
  qed
qed

lemma delete_investments64_allocations:
  "delete_investments64 v u i = Inr u' \<Longrightarrow> allocations u' = allocations u \<and> expenses u' = expenses u"
  by (cases i; cases v) (auto simp: delete_investments64_def split: if_splits)

lemma nonneg_step: "ledger_nonneg u \<Longrightarrow> ledger_nonneg (step64 v u x)"
proof (cases "handle64 v u x")
  case (Inl e)
  assume "ledger_nonneg u"
  with Inl show ?thesis by (simp add: step64_def)
next
  case (Inr u')
  assume n: "ledger_nonneg u"
  from Inr have s: "step64 v u x = u'" by (simp add: step64_def)
  show ?thesis
  proof (cases x)
    case (InjectBudget a)
    with Inr n s show ?thesis by (auto intro: nonneg_inject)
  next
    case (RecordExpense r today)
    with Inr n s show ?thesis by (auto intro: nonneg_expense)
  next
    case (DeleteExpense i)
    with Inr n s show ?thesis by (auto intro: nonneg_delete_expense)
  next
    case (RecordInvestment r)
    with Inr post_investments64_rejects [of v u r] show ?thesis by auto
  next
    case (DeleteInvestment i)
    with Inr have "delete_investments64 v u i = Inr u'" by simp
    from delete_investments64_allocations [OF this] n s show ?thesis
      by (simp add: ledger_nonneg_def)
  qed
qed

lemma nonneg_run: "ledger_nonneg u \<Longrightarrow> ledger_nonneg (run64 v u xs)"
  by (induction xs arbitrary: u) (simp_all add: run64_Nil run64_Cons nonneg_step)

text \<open>The two guards against an overdraft.\<close>

lemma post_expenses64_rejects_overdraft:
  "expense_valid r \<Longrightarrow> categoryKey (req_category r) = Key k
   \<Longrightarrow> req_amount r > alloc_get k (allocations u)
   \<Longrightarrow> post_expenses64 u r today = Inl InsufficientAllocation"
  by (simp add: post_expenses64_def)

lemma post_investments64_rejects_overdraft:
  "investment_valid r \<Longrightarrow> ireq_amount r > investmentBudget64 u
   \<Longrightarrow> post_investments64 v u r = Inl InsufficientBudget"
  by (simp add: post_investments64_def)

subsection \<open>An expense and its deletion\<close>

text \<open>Subtracting and adding back an amount rounds twice.\<close>

lemma rounded_round_trip:
  assumes M: "1 \<le> M" and b: "\<bar>b\<bar> \<le> M" and a: "\<bar>a\<bar> \<le> M"
  shows "\<bar>binary64 (binary64 (b - a) + a) - b\<bar> \<le> 4 * eps64 * M"
proof -
  define x where "x = binary64 (b - a)"
  have 1: "\<bar>x - (b - a)\<bar> \<le> 2 * eps64 * M"
    unfolding x_def by (rule rounded_diff [OF M b a])
  have "2 * eps64 * M \<le> M" using eps64_bounds M by (simp add: mult_le_cancel_right1)
  with 1 b have "\<bar>x + a\<bar> \<le> 2 * M" by linarith
  moreover have "1 \<le> 2 * M" using M by linarith
  ultimately have "\<bar>binary64 (x + a) - (x + a)\<bar> \<le> eps64 * (2 * M)"
    by (intro binary64_close)
  with 1 show ?thesis unfolding x_def by linarith
qed

lemma allocs_close_refl: "0 \<le> d \<Longrightarrow> allocs_close d a a"
  by (simp add: allocs_close_def)

lemma allocs_close_alloc_set:
  "0 \<le> d \<Longrightarrow> \<bar>y - alloc_get k a\<bar> \<le> d \<Longrightarrow> allocs_close d (alloc_set k y (alloc_set k x a)) a"
  by (cases k) (simp_all add: allocs_close_def)

lemma alloc_set_alloc_set: "alloc_set k y (alloc_set k x a) = alloc_set k y a"
  by (cases k) simp_all

lemma alloc_set_same: "alloc_set k (alloc_get k a) a = a"
  by (cases k) simp_all

text \<open>The document that the deletion of the expense appended last saves.\<close>

lemma delete_after_post:
  assumes "post_expenses64 u r today = Inr u'"
  shows "delete_expenses64 u' (Index (int (length (expenses u)))) =
    Inr (case categoryKey (req_category r) of
           Key k \<Rightarrow>
             u\<lparr>initialBudget := binary64 (binary64 (initialBudget u - req_amount r) + req_amount r),
               allocations := alloc_set k
                 (binary64 (binary64 (alloc_get k (allocations u) - req_amount r) + req_amount r))
                 (allocations u)\<rparr>
         | Inherited \<Rightarrow>
             u\<lparr>initialBudget := binary64 (binary64 (initialBudget u - req_amount r) + req_amount r)\<rparr>
         | Undefined \<Rightarrow> u)"
proof (cases "categoryKey (req_category r)")
  case (Key k)
  with assms have u': "u' = u\<lparr>expenses := expenses u @ [newExpense r today],
      initialBudget := binary64 (initialBudget u - req_amount r),
      allocations := alloc_set k (binary64 (alloc_get k (allocations u) - req_amount r)) (allocations u)\<rparr>"
    by (auto simp: post_expenses64_def split: if_splits)
  show ?thesis
    by (simp add: u' delete_expenses64_def Let_def newExpense_fields Key splice1_snoc
        alloc_get_alloc_set alloc_set_alloc_set)
next
  case Inherited
  with assms have u': "u' = u\<lparr>expenses := expenses u @ [newExpense r today],
      initialBudget := binary64 (initialBudget u - req_amount r)\<rparr>"
    by (auto simp: post_expenses64_def split: if_splits)
  show ?thesis
    by (simp add: u' delete_expenses64_def Let_def newExpense_fields Inherited splice1_snoc)
next
  case Undefined
  with assms show ?thesis
    by (auto simp: post_expenses64_def split: if_splits)
qed

text \<open>It has the fields of the first document, but for a budget and a balance that are rounded twice.\<close>

lemma expense_then_delete_close:
  assumes h: "post_expenses64 u r today = Inr u'"
    and M: "1 \<le> M" and w: "ledger_within M u" and a: "\<bar>req_amount r\<bar> \<le> M"
  shows "\<exists>u''. delete_expenses64 u' (Index (int (length (expenses u)))) = Inr u''
     \<and> expenses u'' = expenses u \<and> investmentHistory u'' = investmentHistory u
     \<and> username u'' = username u \<and> password u'' = password u
     \<and> \<bar>initialBudget u'' - initialBudget u\<bar> \<le> 4 * eps64 * M
     \<and> allocs_close (4 * eps64 * M) (allocations u'') (allocations u)"
proof -
  have d: "0 \<le> 4 * eps64 * M" using M eps64_bounds by simp
  from w have wb: "\<bar>initialBudget u\<bar> \<le> M" by (simp add: ledger_within_def)
  have rb: "\<bar>binary64 (binary64 (initialBudget u - req_amount r) + req_amount r) - initialBudget u\<bar>
      \<le> 4 * eps64 * M"
    by (rule rounded_round_trip [OF M wb a])
  show ?thesis
  proof (cases "categoryKey (req_category r)")
    case (Key k)
    from w have "\<bar>alloc_get k (allocations u)\<bar> \<le> M"
      by (simp add: ledger_within_def allocs_within_get)
    from rounded_round_trip [OF M this a]
    have "allocs_close (4 * eps64 * M)
        (alloc_set k (binary64 (binary64 (alloc_get k (allocations u) - req_amount r) + req_amount r))
           (alloc_set k (alloc_get k (allocations u)) (allocations u))) (allocations u)"
      by (intro allocs_close_alloc_set d)
    then show ?thesis
      using rb by (simp add: delete_after_post [OF h] Key alloc_set_alloc_set)
  next
    case Inherited
    then show ?thesis
      using rb d by (simp add: delete_after_post [OF h] allocs_close_refl)
  next
    case Undefined
    with h show ?thesis by (auto simp: post_expenses64_def split: if_splits)
  qed
qed

text \<open>Where neither subtraction rounds and the ledger holds doubles, the deletion restores it.\<close>

lemma expense_then_delete_exact:
  assumes h: "post_expenses64 u r today = Inr u'"
    and k: "categoryKey (req_category r) = Key k"
    and b: "binary64 (initialBudget u) = initialBudget u"
      "binary64 (initialBudget u - req_amount r) = initialBudget u - req_amount r"
    and x: "binary64 (alloc_get k (allocations u)) = alloc_get k (allocations u)"
      "binary64 (alloc_get k (allocations u) - req_amount r) = alloc_get k (allocations u) - req_amount r"
  shows "delete_expenses64 u' (Index (int (length (expenses u)))) = Inr u"
  by (simp add: delete_after_post [OF h] k b x alloc_set_same)

subsection \<open>The two readings of the handlers\<close>

text \<open>
  An injection in double arithmetic is accepted like the exact one, with a budget within
  \<open>2 * eps64 * M\<close> and balances within \<open>6 * eps64 * M\<close> of the exact ones.
\<close>

lemma post_initial_budget64_close:
  assumes M: "1 \<le> M" and w: "ledger_within M u" and a: "0 \<le> a" "a \<le> M"
  shows "\<exists>u1 u2. post_initial_budget64 u a = Inr u1 \<and> post_initial_budget u a = Inr u2
     \<and> \<bar>initialBudget u1 - initialBudget u2\<bar> \<le> 2 * eps64 * M
     \<and> allocs_close (6 * eps64 * M) (allocations u1) (allocations u2)
     \<and> expenses u1 = expenses u2 \<and> investmentHistory u1 = investmentHistory u2"
proof -
  let ?al = "allocations u"
  from w have wb: "\<bar>initialBudget u\<bar> \<le> M"
    and wa: "\<bar>essentials ?al\<bar> \<le> M" "\<bar>savings ?al\<bar> \<le> M" "\<bar>selfInvestment ?al\<bar> \<le> M"
      "\<bar>charity ?al\<bar> \<le> M" "\<bar>emergency ?al\<bar> \<le> M"
    by (simp_all add: ledger_within_def allocs_within_def)
  from a have aa: "\<bar>a\<bar> \<le> M" by simp
  have rb: "\<bar>binary64 (initialBudget u + a) - (initialBudget u + a)\<bar> \<le> 2 * eps64 * M"
    by (rule rounded_sum [OF M wb aa])
  have r: "\<bar>binary64 (essentials ?al + binary64 (a * binary64 0.5)) - (essentials ?al + a * 0.5)\<bar>
        \<le> 6 * eps64 * M"
    "\<bar>binary64 (savings ?al + binary64 (a * binary64 0.2)) - (savings ?al + a * 0.2)\<bar> \<le> 6 * eps64 * M"
    "\<bar>binary64 (selfInvestment ?al + binary64 (a * binary64 0.15)) - (selfInvestment ?al + a * 0.15)\<bar>
        \<le> 6 * eps64 * M"
    "\<bar>binary64 (charity ?al + binary64 (a * binary64 0.05)) - (charity ?al + a * 0.05)\<bar> \<le> 6 * eps64 * M"
    "\<bar>binary64 (emergency ?al + binary64 (a * binary64 0.1)) - (emergency ?al + a * 0.1)\<bar> \<le> 6 * eps64 * M"
    by (rule rounded_share [OF M _ a]; simp add: wa)+
  show ?thesis
    using a(1) rb r by (simp add: post_initial_budget64_def post_initial_budget_def allocs_close_def)
qed

text \<open>
  The two readings of \<^verbatim>\<open>POST /api/expenses\<close> reject the same requests, the
  comparison being the same.
\<close>

lemma post_expenses64_rejects:
  "post_expenses64 u r today = Inl e \<longleftrightarrow> post_expenses u r today = Inl e"
  by (auto simp: post_expenses64_def post_expenses_def split: category_lookup.splits)

text \<open>An expense equal to the balance of its category leaves exactly 0 there: \<open>x - x\<close> does not round.\<close>

lemma expense_equal_to_balance64:
  assumes "allocs_nonneg (allocations u)"
    and "categoryKey (req_category r) = Key k"
    and "req_amount r = alloc_get k (allocations u)"
    and "req_purpose r \<noteq> []" and "req_location r \<noteq> []"
  shows "\<exists>u'. post_expenses64 u r today = Inr u' \<and> alloc_get k (allocations u') = 0"
proof -
  have "categoryKey (req_category r) \<noteq> Undefined" using assms(2) by simp
  then have "req_category r \<noteq> []" by (rule categoryKey_nonempty)
  moreover have "0 \<le> req_amount r"
    using assms(1,3) by (simp add: alloc_get_nonneg)
  ultimately have "expense_valid r"
    using assms(4,5) by (simp add: expense_valid_def)
  then show ?thesis
    using assms(2,3) by (simp add: post_expenses64_def alloc_get_alloc_set binary64_0)
qed

subsection \<open>Evaluating requests on the concrete ledgers\<close>

lemma inject_fresh: "post_initial_budget fresh 1000 = Inr funded"
  by (simp add: post_initial_budget_def fresh_def funded_def new_user_def)


lemma run64_thin:
  "run64 ServerJs fresh [InjectBudget 1000, RecordExpense course today0] = thin"
  "run64 Part000 fresh [InjectBudget 1000, RecordExpense course today0] = thin"
  by code_simp+

text \<open>On the empty list every integer index is out of range.\<close>

lemma delete_investments64_empty_index:
  "investmentHistory u = [] \<Longrightarrow> delete_investments64 v u (Index i) = Inl InvalidIndex"
  by (auto simp: delete_investments64_def)

subsection \<open>The price endpoint\<close>

text \<open>A source that rejects every call is asked three times.\<close>

lemma fetchWithRetry_all_rejected:
  assumes "source 0 = Rejects a" "source 1 = Rejects b" "source 2 = Rejects c"
  shows "fetchWithRetry source 3 0 = (Rejects c, 3)"
proof -
  have "fetchWithRetry source 3 2 = (Rejects c, 3)"
    using assms(3) by (subst fetchWithRetry.simps) (simp add: eval_nat_numeral)
  then have "fetchWithRetry source 3 1 = (Rejects c, 3)"
    using assms(2) by (subst fetchWithRetry.simps) (simp add: eval_nat_numeral)
  then show ?thesis
    using assms(1) by (subst fetchWithRetry.simps) (simp add: eval_nat_numeral)
qed

lemma quotes_rejected:
  assumes "source 0 = Rejects a" "source 1 = Rejects b" "source 2 = Rejects c"
  shows "coingecko e = source \<Longrightarrow> coingecko_quote e = (Threw, 3)"
    and "coinmarketcap e = source \<Longrightarrow> cmc_quote e = (Threw, 3)"
    and "binance e = source \<Longrightarrow> binance_quote e = (Threw, 3)"
  using fetchWithRetry_all_rejected [OF assms]
  by (simp_all add: coingecko_quote_def cmc_quote_def binance_quote_def)

text \<open>
  The handler of the second document of \<^verbatim>\<open>part_000\<close> does what C7 and C8 ask. With no
  cache hit and every source failing (the second one skipped when no key is configured),
  the response has status 200, the fallback price and a separate warning.
\<close>

lemma get_bitcoin_price_fallback:
  assumes "cache_lookup e = None"
    and "fst (coingecko_quote e) = Threw"
    and "\<not> cmc_configured e \<or> fst (cmc_quote e) = Threw"
    and "fst (binance_quote e) = Threw"
  shows "status (get_bitcoin_price e) = 200
    \<and> body (get_bitcoin_price e) = [(''price'', JNum fallbackPrice), (''warning'', JStr warning_text)]"
proof -
  obtain n1 where q1: "coingecko_quote e = (Threw, n1)"
    using assms(2) by (cases "coingecko_quote e") simp
  have "\<exists>n2. (if cmc_configured e then cmc_quote e else (Threw, 0)) = (Threw, n2)"
    using assms(3) by (cases "cmc_quote e") auto
  then obtain n2 where q2: "(if cmc_configured e then cmc_quote e else (Threw, 0)) = (Threw, n2)" ..
  obtain n3 where q3: "binance_quote e = (Threw, n3)"
    using assms(4) by (cases "binance_quote e") simp
  show ?thesis
    by (simp add: get_bitcoin_price_def assms(1) q1 q2 q3)
qed

text \<open>With a cache hit the response is the parsed entry, and no source is called.\<close>

lemma get_bitcoin_price_cache_hit:
  assumes "redisClient e = Some client"
    and "redis_get client ''bitcoin_price'' = Returned (Some cachedPrice)"
    and "cachedPrice \<noteq> []"
  shows "get_bitcoin_price e =
    \<lparr>status = 200, body = [(''price'', js_parseFloat e cachedPrice)], upstream_calls = 0,
     cache_writes = []\<rparr>"
  using assms by (simp add: get_bitcoin_price_def cache_lookup_def)

lemma get_bitcoin_price_cache_hit_any_upstream:
  assumes "redisClient e = Some client"
    and "redis_get client ''bitcoin_price'' = Returned (Some cachedPrice)"
    and "cachedPrice \<noteq> []"
  shows "get_bitcoin_price (e\<lparr>coingecko := g, coinmarketcap := c, binance := b\<rparr>) = get_bitcoin_price e"
  using assms by (simp add: get_bitcoin_price_def cache_lookup_def)

lemma get_bitcoin_price_outage:
  "get_bitcoin_price outage =
    \<lparr>status = 200, body = [(''price'', JNum fallbackPrice), (''warning'', JStr warning_text)],
     upstream_calls = 9, cache_writes = []\<rparr>"
proof -
  have f: "fetchWithRetry (\<lambda>i. Rejects None) 3 0 = (Rejects None, 3)"
    by (rule fetchWithRetry_all_rejected) simp_all
  show ?thesis
    by (simp add: get_bitcoin_price_def cache_lookup_def outage_def quiet_redis_def
        coingecko_quote_def cmc_quote_def binance_quote_def cmc_configured_def f)
qed

lemma get_bitcoin_price_cached:
  "get_bitcoin_price cached =
    \<lparr>status = 200, body = [(''price'', JNum 65000)], upstream_calls = 0, cache_writes = []\<rparr>"
  by (simp add: get_bitcoin_price_def cache_lookup_def cached_def warm_redis_def)

section \<open>The claims\<close>

subsection \<open>C1: conservation\<close>




subsection \<open>C2: allocations stay non-negative\<close>

text \<open>
  C2, as amended. On a ledger whose five balances are not negative (and whose listed
  expenses have amounts that are not negative, as every expense the API records has), no
  sequence of requests, to either variant, takes a balance below zero. A valid expense
  above the balance of its category is answered with \<open>InsufficientAllocation\<close>, a valid
  investment above \<open>selfInvestment + emergency\<close> with \<open>InsufficientBudget\<close>, and both
  leave the ledger as it was.
\<close>

theorem allocations_stay_nonnegative:
  assumes "ledger_nonneg u"
  shows "allocs_nonneg (allocations (run64 v u xs))
     \<and> (expense_valid r \<and> categoryKey (req_category r) = Key k
          \<and> alloc_get k (allocations u) < req_amount r
        \<longrightarrow> handle64 v u (RecordExpense r today) = Inl InsufficientAllocation
          \<and> step64 v u (RecordExpense r today) = u)
     \<and> (investment_valid i \<and> investmentBudget64 u < ireq_amount i
        \<longrightarrow> handle64 v u (RecordInvestment i) = Inl InsufficientBudget
          \<and> step64 v u (RecordInvestment i) = u)"
proof -
  from nonneg_run [OF assms, of v xs]
  have "allocs_nonneg (allocations (run64 v u xs))" by (simp add: ledger_nonneg_def)
  then show ?thesis
    by (simp add: step64_def post_expenses64_rejects_overdraft post_investments64_rejects_overdraft)
qed

text \<open>
  Witness for C2: the ledger with 50 in self-investment and 100 in emergency, sent an
  investment, an expense and its deletion; an expense of 60 on self-investment; an
  investment of 200.
\<close>

theorem allocations_stay_nonnegative_witness:
  "ledger_nonneg thin
   \<and> allocs_nonneg (allocations (run64 Part000 thin
        [RecordInvestment etf80, RecordExpense groceries today0, DeleteExpense (Index 0)]))
   \<and> (expense_valid (course\<lparr>req_amount := 60\<rparr>)
      \<and> categoryKey (req_category (course\<lparr>req_amount := 60\<rparr>)) = Key SelfInvestment
      \<and> alloc_get SelfInvestment (allocations thin) < req_amount (course\<lparr>req_amount := 60\<rparr>))
   \<and> handle64 Part000 thin (RecordExpense (course\<lparr>req_amount := 60\<rparr>) today0) = Inl InsufficientAllocation
   \<and> step64 Part000 thin (RecordExpense (course\<lparr>req_amount := 60\<rparr>) today0) = thin
   \<and> (investment_valid (etf\<lparr>ireq_amount := 200\<rparr>)
      \<and> investmentBudget64 thin < ireq_amount (etf\<lparr>ireq_amount := 200\<rparr>))
   \<and> handle64 Part000 thin (RecordInvestment (etf\<lparr>ireq_amount := 200\<rparr>)) = Inl InsufficientBudget
   \<and> step64 Part000 thin (RecordInvestment (etf\<lparr>ireq_amount := 200\<rparr>)) = thin"
proof -
  have h: "ledger_nonneg thin"
    by code_simp
  have e: "expense_valid (course\<lparr>req_amount := 60\<rparr>)
      \<and> categoryKey (req_category (course\<lparr>req_amount := 60\<rparr>)) = Key SelfInvestment
      \<and> alloc_get SelfInvestment (allocations thin) < req_amount (course\<lparr>req_amount := 60\<rparr>)"
    by code_simp
  have i: "investment_valid (etf\<lparr>ireq_amount := 200\<rparr>)
      \<and> investmentBudget64 thin < ireq_amount (etf\<lparr>ireq_amount := 200\<rparr>)"
    by code_simp
  note c = allocations_stay_nonnegative [OF h, of Part000
      "[RecordInvestment etf80, RecordExpense groceries today0, DeleteExpense (Index 0)]"
      "course\<lparr>req_amount := 60\<rparr>" SelfInvestment today0 "etf\<lparr>ireq_amount := 200\<rparr>"]
  from h e i c show ?thesis
    by blast
qed

text \<open>
  Counterexample to C2 as stated. After an injection of 1000 and an expense of 100 on
  self-investment every balance is non-negative, with 50 in self-investment and 100 in
  emergency. An investment of 80 debits self-investment (\<^verbatim>\<open>part_000\<close>, line 996), which
  would leave -30 there; it is within \<open>selfInvestment + emergency\<close> and within a tenth
  of the portfolio, so neither guard rejects it, and both variants answer with status
  500 (\<open>ServerError\<close>), which is neither \<open>InsufficientAllocation\<close> nor
  \<open>InsufficientBudget\<close>.
\<close>

theorem investment_above_balance_counterexample:
  "run64 ServerJs fresh [InjectBudget 1000, RecordExpense course today0] = thin
   \<and> run64 Part000 fresh [InjectBudget 1000, RecordExpense course today0] = thin
   \<and> allocs_nonneg (allocations thin)
   \<and> investment_valid etf80
   \<and> selfInvestment (allocations thin) - ireq_amount etf80 = - 30
   \<and> handle64 ServerJs thin (RecordInvestment etf80) = Inl ServerError
   \<and> handle64 Part000 thin (RecordInvestment etf80) = Inl ServerError"
  by code_simp

subsection \<open>C3: an expense and its deletion cancel\<close>

text \<open>
  C3, as amended. Whenever \<^verbatim>\<open>POST /api/expenses\<close> accepts a request on a ledger whose
  budget and balances, like the amount requested, are within \<open>M\<close> in magnitude (\<open>M\<close> at
  least 1, and at most \<open>2\<^sup>1\<^sup>0\<^sup>0\<^sup>0\<close> so that no operation overflows), deleting the expense
  at the index it was appended at (the former length of the list) is accepted and gives
  back the expense list, the investment list and the credentials exactly, and the budget
  and each of the five balances within the rounding epsilon \<open>4 * eps64 * M\<close>, where
  \<open>eps64\<close> is \<open>2\<^sup>-\<^sup>5\<^sup>2\<close>.
\<close>

theorem expense_then_delete_nearly_restores:
  assumes "post_expenses64 u r today = Inr u'"
    and "1 \<le> M" and "M \<le> 2 ^ 1000"
    and "ledger_within M u" and "\<bar>req_amount r\<bar> \<le> M"
  shows "\<exists>u''. delete_expenses64 u' (Index (int (length (expenses u)))) = Inr u''
     \<and> expenses u'' = expenses u \<and> investmentHistory u'' = investmentHistory u
     \<and> username u'' = username u \<and> password u'' = password u
     \<and> \<bar>initialBudget u'' - initialBudget u\<bar> \<le> 4 * eps64 * M
     \<and> allocs_close (4 * eps64 * M) (allocations u'') (allocations u)"
  using assms(1,2,4,5) by (rule expense_then_delete_close)

text \<open>
  Witness for C3: the expense of \<^verbatim>\<open>0.03\<close> on self-investment against the ledger with
  a budget of 2, and its deletion at index 0, with \<open>M = 2\<close>.
\<close>

theorem expense_then_delete_nearly_restores_witness:
  "(post_expenses64 seeded snack today0 = Inr nibbled
     \<and> (1 :: number) \<le> 2 \<and> (2 :: number) \<le> 2 ^ 1000
     \<and> ledger_within 2 seeded \<and> \<bar>req_amount snack\<bar> \<le> 2)
   \<and> (\<exists>u''. delete_expenses64 nibbled (Index (int (length (expenses seeded)))) = Inr u''
     \<and> expenses u'' = expenses seeded \<and> investmentHistory u'' = investmentHistory seeded
     \<and> username u'' = username seeded \<and> password u'' = password seeded
     \<and> \<bar>initialBudget u'' - initialBudget seeded\<bar> \<le> 4 * eps64 * 2
     \<and> allocs_close (4 * eps64 * 2) (allocations u'') (allocations seeded))"
proof -
  have h1: "post_expenses64 seeded snack today0 = Inr nibbled"
    by code_simp
  have h2: "(1 :: number) \<le> 2" and h3: "(2 :: number) \<le> 2 ^ 1000"
    by simp_all
  have h4: "ledger_within 2 seeded" and h5: "\<bar>req_amount snack\<bar> \<le> 2"
    by code_simp+
  note c = expense_then_delete_nearly_restores [OF h1 h2 h3 h4 h5]
  from h1 h2 h3 h4 h5 c show ?thesis
    by blast
qed

text \<open>
  Counterexample to C3 as stated: inject 2 into a new account, record the expense of
  \<^verbatim>\<open>0.03\<close> on self-investment and delete it at index 0. All three requests are
  accepted. The balance of self-investment was \<^verbatim>\<open>0.3\<close>, the double
  \<open>5404319552844595 / 2\<^sup>5\<^sup>4\<close>, and is \<^verbatim>\<open>0.30000000000000004\<close> afterwards, the double
  \<open>5404319552844596 / 2\<^sup>5\<^sup>4\<close>: the ledger is not restored exactly.
\<close>

theorem expense_then_delete_counterexample:
  "post_initial_budget64 fresh 2 = Inr seeded
   \<and> post_expenses64 seeded snack today0 = Inr nibbled
   \<and> delete_expenses64 nibbled (Index 0) = Inr reverted
   \<and> selfInvestment (allocations seeded) = 5404319552844595 / 2 ^ 54
   \<and> selfInvestment (allocations reverted) = 5404319552844596 / 2 ^ 54
   \<and> reverted \<noteq> seeded"
  by code_simp

subsection \<open>C4: recording an investment\<close>


subsection \<open>C5: deleting an investment\<close>

text \<open>
  C5 at a failing input. \<^verbatim>\<open>DELETE /api/investments/abc\<close> on a new account: the index
  parses to \<^verbatim>\<open>NaN\<close>, which is not in the range of the (empty) list and passes both
  comparisons of the range check. \<^verbatim>\<open>server.js\<close> answers with status 200 and the list;
  the second document of \<^verbatim>\<open>part_000\<close> answers with status 500 (\<open>ServerError\<close>). Neither
  answers with \<open>InvalidIndex\<close>, which both give for every integer index on that list
  (\<open>delete_investments64_empty_index\<close>).
\<close>

theorem delete_investment_non_numeric_index:
  "investmentHistory fresh = []
   \<and> handle64 ServerJs fresh (DeleteInvestment NaN) = Inr fresh
   \<and> handle64 Part000 fresh (DeleteInvestment NaN) = Inl ServerError
   \<and> handle64 ServerJs fresh (DeleteInvestment (Index 0)) = Inl InvalidIndex
   \<and> handle64 Part000 fresh (DeleteInvestment (Index 0)) = Inl InvalidIndex"
  by code_simp

subsection \<open>C6: injecting budget\<close>




subsection \<open>C7: the price when every source fails\<close>

text \<open>
  C7 at a failing input. With every call to the upstream source rejected,
  \<^verbatim>\<open>GET /api/bitcoin-price\<close> of \<^verbatim>\<open>server.js\<close> answers with status 500 and an
  \<^verbatim>\<open>error\<close> field, and no price. (The handler of the second document of \<^verbatim>\<open>part_000\<close>
  answers with the fallback price and a warning: \<open>get_bitcoin_price_fallback\<close>.)
\<close>

theorem server_js_price_outage:
  "server_js_get_bitcoin_price outage =
     \<lparr>status = 500, body = [(''error'', JStr error_text)], upstream_calls = 1, cache_writes = []\<rparr>"
  by (simp add: server_js_get_bitcoin_price_def outage_def)

subsection \<open>C8: the price when the cache holds one\<close>

text \<open>
  C8 at a failing input. With the entry \<^verbatim>\<open>65000\<close> cached under \<^verbatim>\<open>bitcoin_price\<close> and a
  source that answers 70000, \<^verbatim>\<open>GET /api/bitcoin-price\<close> of \<^verbatim>\<open>server.js\<close> calls the
  source and answers with 70000. (The handler of the second document of \<^verbatim>\<open>part_000\<close>
  answers with the cached price and calls no source: \<open>get_bitcoin_price_cache_hit\<close>.)
\<close>

theorem server_js_price_ignores_cache:
  "cache_lookup cached = Some ''65000''
   \<and> server_js_get_bitcoin_price cached =
       \<lparr>status = 200, body = [(''price'', JNum 70000)], upstream_calls = 1, cache_writes = []\<rparr>"
  by (simp add: server_js_get_bitcoin_price_def cache_lookup_def cached_def warm_redis_def)

subsection \<open>C9: replacing the allocations\<close>

text \<open>
  C9. \<^verbatim>\<open>POST /api/allocations\<close> with five non-negative values is accepted, stores the
  values as the allocations, and leaves \<open>initialBudget\<close>, the expense list and the
  investment list as they were: the budget is not reconciled with the new allocations.
\<close>

theorem set_allocations_frame:
  assumes "allocs_nonneg newMap"
  shows "\<exists>u'. post_allocations u newMap = Inr u'
     \<and> allocations u' = newMap
     \<and> initialBudget u' = initialBudget u
     \<and> expenses u' = expenses u
     \<and> investmentHistory u' = investmentHistory u"
  using assms by (simp add: post_allocations_def)

text \<open>
  Witness for C9: the ledger with a budget of 900 and one expense takes the allocations
  1, 2, 3, 4, 5 and keeps its budget, its expense and its empty investment list.
\<close>

theorem set_allocations_frame_witness:
  "allocs_nonneg \<lparr>essentials = 1, savings = 2, selfInvestment = 3, charity = 4, emergency = 5\<rparr>
   \<and> (\<exists>u'. post_allocations spent
              \<lparr>essentials = 1, savings = 2, selfInvestment = 3, charity = 4, emergency = 5\<rparr> = Inr u'
        \<and> sum_allocations (allocations u') = 15
        \<and> initialBudget u' = 900
        \<and> expenses u' = [newExpense groceries today0]
        \<and> investmentHistory u' = [])"
proof -
  have h: "allocs_nonneg \<lparr>essentials = 1, savings = 2, selfInvestment = 3, charity = 4, emergency = 5\<rparr>"
    by (simp add: allocs_nonneg_def)
  from set_allocations_frame [OF h, of spent]
  obtain u' where "post_allocations spent
        \<lparr>essentials = 1, savings = 2, selfInvestment = 3, charity = 4, emergency = 5\<rparr> = Inr u'"
    and "allocations u' = \<lparr>essentials = 1, savings = 2, selfInvestment = 3, charity = 4, emergency = 5\<rparr>"
    and "initialBudget u' = initialBudget spent"
    and "expenses u' = expenses spent"
    and "investmentHistory u' = investmentHistory spent"
    by auto
  then show ?thesis using h
    by (simp add: spent_def funded_def fresh_def new_user_def sum_allocations_def)
qed

subsection \<open>C10: an expense equal to the balance\<close>

text \<open>
  C10. On a ledger with non-negative allocations, a request with a non-empty purpose and
  location whose label resolves to a category and whose amount equals the balance of that
  category is accepted (the check is \<^verbatim>\<open>amount > balance\<close>), and the balance is 0
  afterwards.
\<close>

theorem expense_equal_to_balance:
  assumes "allocs_nonneg (allocations u)"
    and "categoryKey (req_category r) = Key k"
    and "req_amount r = alloc_get k (allocations u)"
    and "req_purpose r \<noteq> []" and "req_location r \<noteq> []"
  shows "\<exists>u'. post_expenses u r today = Inr u' \<and> alloc_get k (allocations u') = 0"
proof -
  have "categoryKey (req_category r) \<noteq> Undefined" using assms(2) by simp
  then have "req_category r \<noteq> []" by (rule categoryKey_nonempty)
  moreover have "0 \<le> req_amount r"
    using assms(1,3) by (simp add: alloc_get_nonneg)
  ultimately have "expense_valid r"
    using assms(4,5) by (simp add: expense_valid_def)
  then show ?thesis
    using assms(2,3) by (simp add: post_expenses_def alloc_get_alloc_add)
qed

text \<open>Witness for C10: an expense of 500 on essentials against the funded ledger.\<close>

theorem expense_equal_to_balance_witness:
  "allocs_nonneg (allocations funded)
   \<and> categoryKey (req_category (groceries\<lparr>req_amount := 500\<rparr>)) = Key Essentials
   \<and> req_amount (groceries\<lparr>req_amount := 500\<rparr>) = alloc_get Essentials (allocations funded)
   \<and> (\<exists>u'. post_expenses funded (groceries\<lparr>req_amount := 500\<rparr>) today0 = Inr u'
        \<and> alloc_get Essentials (allocations u') = 0)"
proof -
  have 1: "allocs_nonneg (allocations funded)"
    by (simp add: funded_def allocs_nonneg_def)
  have 2: "categoryKey (req_category (groceries\<lparr>req_amount := 500\<rparr>)) = Key Essentials"
    by (simp add: groceries_def categoryKey_labels)
  have 3: "req_amount (groceries\<lparr>req_amount := 500\<rparr>) = alloc_get Essentials (allocations funded)"
    by (simp add: funded_def)
  have 4: "req_purpose (groceries\<lparr>req_amount := 500\<rparr>) \<noteq> []"
    and 5: "req_location (groceries\<lparr>req_amount := 500\<rparr>) \<noteq> []"
    by (simp_all add: groceries_def)
  from expense_equal_to_balance [OF 1 2 3 4 5, of today0] 1 2 3
  show ?thesis by simp
qed

end
